theory Spec2Isabelle
  imports Main "HOL-Library.Word" "HOL-Library.Multiset"
begin

section \<open>Operator tags and node kinds\<close>

text \<open>
  The enumeration \<^verbatim>\<open>AST_TYPE::AST_TYPE\<close> is declared in \<^verbatim>\<open>core/ast.h\<close>; \<^verbatim>\<open>core/ast.cpp\<close>
  names its operator tags in \<^verbatim>\<open>getOpSymbol\<close>, \<^verbatim>\<open>getOpName\<close> and \<^verbatim>\<open>visit_boolop\<close>, and has
  one node class \<^verbatim>\<open>AST_X\<close> (with its tag \<^verbatim>\<open>AST_TYPE::X\<close>) for every \<^verbatim>\<open>accept\<close> method.
  The first thirty enumerators below are the operator tags, the others the node kinds.
\<close>

datatype (plugins only: code) AST_TYPE =
    AST_TYPE_Add | AST_TYPE_And | AST_TYPE_BitAnd | AST_TYPE_BitOr | AST_TYPE_BitXor
  | AST_TYPE_Div | AST_TYPE_DivMod | AST_TYPE_Eq | AST_TYPE_FloorDiv | AST_TYPE_Gt
  | AST_TYPE_GtE | AST_TYPE_In | AST_TYPE_Invert | AST_TYPE_Is | AST_TYPE_IsNot
  | AST_TYPE_LShift | AST_TYPE_Lt | AST_TYPE_LtE | AST_TYPE_Mod | AST_TYPE_Mult
  | AST_TYPE_Not | AST_TYPE_NotEq | AST_TYPE_NotIn | AST_TYPE_Or | AST_TYPE_Pow
  | AST_TYPE_RShift | AST_TYPE_Sub | AST_TYPE_TrueDiv | AST_TYPE_UAdd | AST_TYPE_USub
  | AST_TYPE_alias | AST_TYPE_arguments | AST_TYPE_Assert | AST_TYPE_Assign
  | AST_TYPE_AugAssign | AST_TYPE_AugBinOp | AST_TYPE_Attribute | AST_TYPE_BinOp
  | AST_TYPE_BoolOp | AST_TYPE_Break | AST_TYPE_Call | AST_TYPE_Compare
  | AST_TYPE_comprehension | AST_TYPE_ClassDef | AST_TYPE_Continue | AST_TYPE_Delete
  | AST_TYPE_Dict | AST_TYPE_DictComp | AST_TYPE_Ellipsis | AST_TYPE_ExceptHandler
  | AST_TYPE_Exec | AST_TYPE_Expr | AST_TYPE_ExtSlice | AST_TYPE_For
  | AST_TYPE_FunctionDef | AST_TYPE_GeneratorExp | AST_TYPE_Global | AST_TYPE_If
  | AST_TYPE_IfExp | AST_TYPE_Import | AST_TYPE_ImportFrom | AST_TYPE_Index
  | AST_TYPE_Invoke | AST_TYPE_keyword | AST_TYPE_Lambda | AST_TYPE_LangPrimitive
  | AST_TYPE_List | AST_TYPE_ListComp | AST_TYPE_Module | AST_TYPE_Expression
  | AST_TYPE_Suite | AST_TYPE_Name | AST_TYPE_Num | AST_TYPE_Pass | AST_TYPE_Print
  | AST_TYPE_Raise | AST_TYPE_Repr | AST_TYPE_Return | AST_TYPE_Set | AST_TYPE_SetComp
  | AST_TYPE_Slice | AST_TYPE_Str | AST_TYPE_Subscript | AST_TYPE_TryExcept
  | AST_TYPE_TryFinally | AST_TYPE_Tuple | AST_TYPE_UnaryOp | AST_TYPE_While
  | AST_TYPE_With | AST_TYPE_Yield | AST_TYPE_ClsAttribute

text \<open>
  The ways in which the code ends the process instead of returning:
  the \<^verbatim>\<open>default:\<close> branch of an operator switch (\<^verbatim>\<open>fprintf\<close> of the tag, then \<^verbatim>\<open>abort()\<close>),
  a failed \<^verbatim>\<open>assert\<close> or \<^verbatim>\<open>ASSERT\<close> (compiled only without \<^verbatim>\<open>NDEBUG\<close>),
  a failed \<^verbatim>\<open>RELEASE_ASSERT\<close> (compiled always),
  and two cases of undefined behaviour that are modelled as faults: an index past the end
  of a \<^verbatim>\<open>std::vector\<close>, and a call through a null pointer.
\<close>

datatype fatal =
    Unknown_op_type AST_TYPE
  | Assertion_failed
  | Release_assert_failed
  | Index_out_of_range
  | Null_dereference

text \<open>
  Modelled from the spec: the operator tag enumeration of section 4.2 (arithmetic, bitwise,
  shift, comparison, boolean, unary), whose declaration in \<^verbatim>\<open>core/ast.h\<close> is missing; these
  are the thirty operator enumerators that \<^verbatim>\<open>core/ast.cpp\<close> names.
\<close>

definition arithmetic_tags :: "AST_TYPE list" where
  "arithmetic_tags = [AST_TYPE_Add, AST_TYPE_Sub, AST_TYPE_Mult, AST_TYPE_Div,
     AST_TYPE_TrueDiv, AST_TYPE_FloorDiv, AST_TYPE_Mod, AST_TYPE_Pow, AST_TYPE_DivMod]"

definition bitwise_tags :: "AST_TYPE list" where
  "bitwise_tags = [AST_TYPE_BitAnd, AST_TYPE_BitOr, AST_TYPE_BitXor]"

definition shift_tags :: "AST_TYPE list" where
  "shift_tags = [AST_TYPE_LShift, AST_TYPE_RShift]"

definition comparison_tags :: "AST_TYPE list" where
  "comparison_tags = [AST_TYPE_Eq, AST_TYPE_NotEq, AST_TYPE_Lt, AST_TYPE_LtE, AST_TYPE_Gt,
     AST_TYPE_GtE, AST_TYPE_Is, AST_TYPE_IsNot, AST_TYPE_In, AST_TYPE_NotIn]"

definition boolean_tags :: "AST_TYPE list" where
  "boolean_tags = [AST_TYPE_And, AST_TYPE_Or]"

definition unary_tags :: "AST_TYPE list" where
  "unary_tags = [AST_TYPE_Invert, AST_TYPE_Not, AST_TYPE_UAdd, AST_TYPE_USub]"

definition operator_tags :: "AST_TYPE list" where
  "operator_tags = arithmetic_tags @ bitwise_tags @ shift_tags @ comparison_tags
     @ boolean_tags @ unary_tags"

section \<open>The operator resolver\<close>

text \<open>\<^verbatim>\<open>llvm::StringRef getOpSymbol(int op_type)\<close>: a switch with an aborting default.\<close>

definition getOpSymbol :: "AST_TYPE \<Rightarrow> fatal + string" where
  "getOpSymbol op_type =
    (case op_type of
       AST_TYPE_Add \<Rightarrow> Inr ''+''
     | AST_TYPE_BitAnd \<Rightarrow> Inr ''&''
     | AST_TYPE_BitOr \<Rightarrow> Inr ''|''
     | AST_TYPE_BitXor \<Rightarrow> Inr ''^''
     | AST_TYPE_Div \<Rightarrow> Inr ''/''
     | AST_TYPE_TrueDiv \<Rightarrow> Inr ''/''
     | AST_TYPE_DivMod \<Rightarrow> Inr ''divmod()''
     | AST_TYPE_Eq \<Rightarrow> Inr ''==''
     | AST_TYPE_FloorDiv \<Rightarrow> Inr ''//''
     | AST_TYPE_LShift \<Rightarrow> Inr ''<<''
     | AST_TYPE_Lt \<Rightarrow> Inr ''<''
     | AST_TYPE_LtE \<Rightarrow> Inr ''<=''
     | AST_TYPE_Gt \<Rightarrow> Inr ''>''
     | AST_TYPE_GtE \<Rightarrow> Inr ''>=''
     | AST_TYPE_In \<Rightarrow> Inr ''in''
     | AST_TYPE_Invert \<Rightarrow> Inr ''~''
     | AST_TYPE_Is \<Rightarrow> Inr ''is''
     | AST_TYPE_IsNot \<Rightarrow> Inr ''is not''
     | AST_TYPE_Mod \<Rightarrow> Inr ''%''
     | AST_TYPE_Mult \<Rightarrow> Inr ''*''
     | AST_TYPE_Not \<Rightarrow> Inr ''not''
     | AST_TYPE_NotEq \<Rightarrow> Inr ''!=''
     | AST_TYPE_NotIn \<Rightarrow> Inr ''not in''
     | AST_TYPE_Pow \<Rightarrow> Inr ''**''
     | AST_TYPE_RShift \<Rightarrow> Inr ''>>''
     | AST_TYPE_Sub \<Rightarrow> Inr ''-''
     | AST_TYPE_UAdd \<Rightarrow> Inr ''+''
     | AST_TYPE_USub \<Rightarrow> Inr ''-''
     | _ \<Rightarrow> Inl (Unknown_op_type op_type))"

text \<open>
  \<^verbatim>\<open>BoxedString* getOpName(int op_type)\<close>. The two \<^verbatim>\<open>assert\<close>s are compiled unless
  \<^verbatim>\<open>NDEBUG\<close> is defined: \<open>ndebug\<close> says whether it is. The static strings are set once, on
  the first call, to the literals below; a \<^verbatim>\<open>BoxedString\<close> is modelled by its characters.
\<close>

definition getOpName :: "bool \<Rightarrow> AST_TYPE \<Rightarrow> fatal + string" where
  "getOpName ndebug op_type =
    (if \<not> ndebug \<and> \<not> (op_type \<noteq> AST_TYPE_Is) then Inl Assertion_failed
     else if \<not> ndebug \<and> \<not> (op_type \<noteq> AST_TYPE_IsNot) then Inl Assertion_failed
     else case op_type of
       AST_TYPE_Add \<Rightarrow> Inr ''__add__''
     | AST_TYPE_BitAnd \<Rightarrow> Inr ''__and__''
     | AST_TYPE_BitOr \<Rightarrow> Inr ''__or__''
     | AST_TYPE_BitXor \<Rightarrow> Inr ''__xor__''
     | AST_TYPE_Div \<Rightarrow> Inr ''__div__''
     | AST_TYPE_TrueDiv \<Rightarrow> Inr ''__truediv__''
     | AST_TYPE_DivMod \<Rightarrow> Inr ''__divmod__''
     | AST_TYPE_Eq \<Rightarrow> Inr ''__eq__''
     | AST_TYPE_FloorDiv \<Rightarrow> Inr ''__floordiv__''
     | AST_TYPE_LShift \<Rightarrow> Inr ''__lshift__''
     | AST_TYPE_Lt \<Rightarrow> Inr ''__lt__''
     | AST_TYPE_LtE \<Rightarrow> Inr ''__le__''
     | AST_TYPE_Gt \<Rightarrow> Inr ''__gt__''
     | AST_TYPE_GtE \<Rightarrow> Inr ''__ge__''
     | AST_TYPE_In \<Rightarrow> Inr ''__contains__''
     | AST_TYPE_Invert \<Rightarrow> Inr ''__invert__''
     | AST_TYPE_Mod \<Rightarrow> Inr ''__mod__''
     | AST_TYPE_Mult \<Rightarrow> Inr ''__mul__''
     | AST_TYPE_Not \<Rightarrow> Inr ''__nonzero__''
     | AST_TYPE_NotEq \<Rightarrow> Inr ''__ne__''
     | AST_TYPE_Pow \<Rightarrow> Inr ''__pow__''
     | AST_TYPE_RShift \<Rightarrow> Inr ''__rshift__''
     | AST_TYPE_Sub \<Rightarrow> Inr ''__sub__''
     | AST_TYPE_UAdd \<Rightarrow> Inr ''__pos__''
     | AST_TYPE_USub \<Rightarrow> Inr ''__neg__''
     | _ \<Rightarrow> Inl (Unknown_op_type op_type))"

text \<open>
  \<^verbatim>\<open>.c_str()\<close> hands \<^verbatim>\<open>internStringImmortal\<close> a C string, which ends at the first NUL.
\<close>

definition c_str :: "string \<Rightarrow> string" where
  "c_str s = takeWhile (\<lambda>c. c \<noteq> CHR 0x00) s"

text \<open>
  \<^verbatim>\<open>getInplaceOpName\<close>: \<^verbatim>\<open>"__i" + normal_name->s().substr(2).str()\<close>;
  \<^verbatim>\<open>StringRef::substr(2)\<close> drops the first two characters (all of a shorter string).
\<close>

definition getInplaceOpName :: "bool \<Rightarrow> AST_TYPE \<Rightarrow> fatal + string" where
  "getInplaceOpName ndebug op_type =
    (case getOpName ndebug op_type of
       Inl e \<Rightarrow> Inl e
     | Inr normal_name \<Rightarrow> Inr (c_str (''__i'' @ drop 2 normal_name)))"

text \<open>
  \<^verbatim>\<open>int getReverseCmpOp(int op_type, bool& success)\<close>: the result paired with the value
  left in \<^verbatim>\<open>success\<close>.
\<close>

definition getReverseCmpOp :: "AST_TYPE \<Rightarrow> AST_TYPE \<times> bool" where
  "getReverseCmpOp op_type =
    (if op_type = AST_TYPE_Lt then (AST_TYPE_Gt, True)
     else if op_type = AST_TYPE_LtE then (AST_TYPE_GtE, True)
     else if op_type = AST_TYPE_Gt then (AST_TYPE_Lt, True)
     else if op_type = AST_TYPE_GtE then (AST_TYPE_LtE, True)
     else if op_type = AST_TYPE_NotEq then (AST_TYPE_NotEq, True)
     else if op_type = AST_TYPE_Eq then (AST_TYPE_Eq, True)
     else (op_type, False))"

definition getReverseOpName :: "bool \<Rightarrow> AST_TYPE \<Rightarrow> fatal + string" where
  "getReverseOpName ndebug op_type0 =
    (let (op_type, reversed) = getReverseCmpOp op_type0 in
     if reversed then getOpName ndebug op_type
     else case getOpName ndebug op_type of
       Inl e \<Rightarrow> Inl e
     | Inr normal_name \<Rightarrow> Inr (c_str (''__r'' @ drop 2 normal_name)))"

text \<open>\<^verbatim>\<open>std::string getInplaceOpSymbol(int op_type)\<close>.\<close>

definition getInplaceOpSymbol :: "AST_TYPE \<Rightarrow> fatal + string" where
  "getInplaceOpSymbol op_type =
    (case getOpSymbol op_type of Inl e \<Rightarrow> Inl e | Inr s \<Rightarrow> Inr (s @ ''=''))"

section \<open>The node kinds\<close>

text \<open>
  The node classes are declared in \<^verbatim>\<open>core/ast.h\<close>; each constructor below is one class
  \<^verbatim>\<open>AST_X\<close> with the fields that \<^verbatim>\<open>core/ast.cpp\<close> reads, in this order:

  \<^item> \<^verbatim>\<open>alias\<close>: name, asname; \<^verbatim>\<open>arguments\<close>: args, vararg, kwarg, defaults;
  \<^item> \<^verbatim>\<open>Assert\<close>: test, msg; \<^verbatim>\<open>Assign\<close>: targets, value; \<^verbatim>\<open>AugAssign\<close>: target, op_type, value;
  \<^item> \<^verbatim>\<open>AugBinOp\<close>, \<^verbatim>\<open>BinOp\<close>: left, op_type, right; \<^verbatim>\<open>Attribute\<close>, \<^verbatim>\<open>ClsAttribute\<close>: value, attr;
  \<^item> \<^verbatim>\<open>BoolOp\<close>: op_type, values; \<^verbatim>\<open>Call\<close>: func, args, keywords, starargs, kwargs;
  \<^item> \<^verbatim>\<open>Compare\<close>: left, ops, comparators; \<^verbatim>\<open>comprehension\<close>: target, iter, ifs;
  \<^item> \<^verbatim>\<open>ClassDef\<close>: name, bases, body, decorator_list; \<^verbatim>\<open>Delete\<close>: targets;
  \<^item> \<^verbatim>\<open>Dict\<close>: keys, values; \<^verbatim>\<open>DictComp\<close>: key, value, generators;
  \<^item> \<^verbatim>\<open>ExceptHandler\<close>: type, name, body; \<^verbatim>\<open>Exec\<close>: body, globals, locals;
  \<^item> \<^verbatim>\<open>Expr\<close>, \<^verbatim>\<open>Index\<close>, \<^verbatim>\<open>Repr\<close>: value; \<^verbatim>\<open>ExtSlice\<close>: dims;
  \<^item> \<^verbatim>\<open>For\<close>: target, iter, body, orelse; \<^verbatim>\<open>FunctionDef\<close>: name, args, body, decorator_list;
  \<^item> \<^verbatim>\<open>GeneratorExp\<close>, \<^verbatim>\<open>ListComp\<close>, \<^verbatim>\<open>SetComp\<close>: elt, generators; \<^verbatim>\<open>Global\<close>: names;
  \<^item> \<^verbatim>\<open>If\<close>, \<^verbatim>\<open>While\<close>: test, body, orelse; \<^verbatim>\<open>IfExp\<close>: test, body, orelse;
  \<^item> \<^verbatim>\<open>Import\<close>: names; \<^verbatim>\<open>ImportFrom\<close>: module, names;
  \<^item> \<^verbatim>\<open>Invoke\<close>: stmt, and the \<^verbatim>\<open>idx\<close> of the blocks normal_dest and exc_dest;
  \<^item> \<^verbatim>\<open>keyword\<close>: arg, value; \<^verbatim>\<open>Lambda\<close>: args, body; \<^verbatim>\<open>LangPrimitive\<close>: opcode, args;
  \<^item> \<^verbatim>\<open>List\<close>, \<^verbatim>\<open>Set\<close>, \<^verbatim>\<open>Tuple\<close>: elts; \<^verbatim>\<open>Module\<close>, \<^verbatim>\<open>Suite\<close>: body (a vector);
  \<^item> \<^verbatim>\<open>Expression\<close>: body (one node); \<^verbatim>\<open>Name\<close>: id;
  \<^item> \<^verbatim>\<open>Num\<close>: num_type, n_int, n_long, n_float; \<^verbatim>\<open>Print\<close>: dest, values, nl;
  \<^item> \<^verbatim>\<open>Raise\<close>: arg0, arg1, arg2; \<^verbatim>\<open>Return\<close>, \<^verbatim>\<open>Yield\<close>: value;
  \<^item> \<^verbatim>\<open>Slice\<close>: lower, upper, step; \<^verbatim>\<open>Str\<close>: str_type, str_data;
  \<^item> \<^verbatim>\<open>Subscript\<close>: value, slice; \<^verbatim>\<open>TryExcept\<close>: body, orelse, handlers;
  \<^item> \<^verbatim>\<open>TryFinally\<close>: body, finalbody; \<^verbatim>\<open>UnaryOp\<close>: op_type, operand;
  \<^item> \<^verbatim>\<open>With\<close>: context_expr, optional_vars, body.

  A child pointer that the code tests before use (\<^verbatim>\<open>if (msg) msg->accept(v)\<close>) is an
  \<open>AST option\<close>, a \<^verbatim>\<open>std::vector\<close> of children an \<open>AST list\<close>, any other child an \<open>AST\<close>:
  a child that \<^verbatim>\<open>accept\<close> dereferences without a test is not null in a tree of the model.
  All children have the one type \<open>AST\<close> of the base class; the subclasses that the header
  gives to the fields (\<^verbatim>\<open>AST_expr\<close>, \<^verbatim>\<open>AST_stmt\<close>, ...) are not modelled, so the trees here
  include every tree of the program. An \<^verbatim>\<open>InternedString\<close> is its characters; the name of a
  \<^verbatim>\<open>FunctionDef\<close>, which the code compares with the default \<^verbatim>\<open>InternedString()\<close>, is \<open>None\<close>
  when it is that default. \<^verbatim>\<open>n_int\<close> is an \<^verbatim>\<open>int64_t\<close> and \<^verbatim>\<open>n_float\<close> the 64 bits of a
  \<^verbatim>\<open>double\<close>. The last enumerator of the three small enumerations stands for any value
  that \<^verbatim>\<open>core/ast.cpp\<close> does not name.
\<close>

datatype (plugins only: code) AST_Num_NumType =
    AST_Num_INT | AST_Num_LONG | AST_Num_FLOAT | AST_Num_COMPLEX | AST_Num_other

datatype (plugins only: code) AST_Str_StrType =
    AST_Str_STR | AST_Str_UNICODE | AST_Str_other

datatype (plugins only: code) AST_LangPrimitive_Opcodes =
    AST_LangPrimitive_CHECK_EXC_MATCH | AST_LangPrimitive_LANDINGPAD
  | AST_LangPrimitive_LOCALS | AST_LangPrimitive_GET_ITER
  | AST_LangPrimitive_IMPORT_FROM | AST_LangPrimitive_IMPORT_NAME
  | AST_LangPrimitive_IMPORT_STAR | AST_LangPrimitive_NONE
  | AST_LangPrimitive_NONZERO | AST_LangPrimitive_SET_EXC_INFO
  | AST_LangPrimitive_UNCACHE_EXC_INFO | AST_LangPrimitive_HASNEXT
  | AST_LangPrimitive_PRINT_EXPR | AST_LangPrimitive_other

datatype (plugins only: code) AST =
    AST_alias string string
  | AST_arguments "AST list" "AST option" "AST option" "AST list"
  | AST_Assert AST "AST option"
  | AST_Assign "AST list" AST
  | AST_AugAssign AST AST_TYPE AST
  | AST_AugBinOp AST AST_TYPE AST
  | AST_Attribute AST string
  | AST_BinOp AST AST_TYPE AST
  | AST_BoolOp AST_TYPE "AST list"
  | AST_Break
  | AST_Call AST "AST list" "AST list" "AST option" "AST option"
  | AST_Compare AST "AST_TYPE list" "AST list"
  | AST_comprehension AST AST "AST list"
  | AST_ClassDef string "AST list" "AST list" "AST list"
  | AST_Continue
  | AST_Delete "AST list"
  | AST_Dict "AST list" "AST list"
  | AST_DictComp AST AST "AST list"
  | AST_Ellipsis
  | AST_ExceptHandler "AST option" "AST option" "AST list"
  | AST_Exec "AST option" "AST option" "AST option"
  | AST_Expr AST
  | AST_ExtSlice "AST list"
  | AST_For AST AST "AST list" "AST list"
  | AST_FunctionDef "string option" AST "AST list" "AST list"
  | AST_GeneratorExp AST "AST list"
  | AST_Global "string list"
  | AST_If AST "AST list" "AST list"
  | AST_IfExp AST AST AST
  | AST_Import "AST list"
  | AST_ImportFrom string "AST list"
  | AST_Index AST
  | AST_Invoke AST int int
  | AST_keyword string AST
  | AST_Lambda AST AST
  | AST_LangPrimitive AST_LangPrimitive_Opcodes "AST list"
  | AST_List "AST list"
  | AST_ListComp AST "AST list"
  | AST_Module "AST list"
  | AST_Expression AST
  | AST_Suite "AST list"
  | AST_Name string
  | AST_Num AST_Num_NumType "64 word" string "64 word"
  | AST_Pass
  | AST_Print "AST option" "AST list" bool
  | AST_Raise "AST option" "AST option" "AST option"
  | AST_Repr AST
  | AST_Return "AST option"
  | AST_Set "AST list"
  | AST_SetComp AST "AST list"
  | AST_Slice "AST option" "AST option" "AST option"
  | AST_Str AST_Str_StrType string
  | AST_Subscript AST AST
  | AST_TryExcept "AST list" "AST list" "AST list"
  | AST_TryFinally "AST list" "AST list"
  | AST_Tuple "AST list"
  | AST_UnaryOp AST_TYPE AST
  | AST_While AST "AST list" "AST list"
  | AST_With AST "AST option" "AST list"
  | AST_Yield "AST option"
  | AST_ClsAttribute AST string

text \<open>The field \<^verbatim>\<open>type\<close> of a node, which its class fixes.\<close>

primrec AST_type :: "AST \<Rightarrow> AST_TYPE" where
  "AST_type (AST_alias name asname) = AST_TYPE_alias"
| "AST_type (AST_arguments args vararg kwarg defaults) = AST_TYPE_arguments"
| "AST_type (AST_Assert test msg) = AST_TYPE_Assert"
| "AST_type (AST_Assign targets value) = AST_TYPE_Assign"
| "AST_type (AST_AugAssign target op_type value) = AST_TYPE_AugAssign"
| "AST_type (AST_AugBinOp left op_type right) = AST_TYPE_AugBinOp"
| "AST_type (AST_Attribute value attr) = AST_TYPE_Attribute"
| "AST_type (AST_BinOp left op_type right) = AST_TYPE_BinOp"
| "AST_type (AST_BoolOp op_type values) = AST_TYPE_BoolOp"
| "AST_type AST_Break = AST_TYPE_Break"
| "AST_type (AST_Call func args keywords starargs kwargs) = AST_TYPE_Call"
| "AST_type (AST_Compare left ops comparators) = AST_TYPE_Compare"
| "AST_type (AST_comprehension target iter ifs) = AST_TYPE_comprehension"
| "AST_type (AST_ClassDef name bases body decorator_list) = AST_TYPE_ClassDef"
| "AST_type AST_Continue = AST_TYPE_Continue"
| "AST_type (AST_Delete targets) = AST_TYPE_Delete"
| "AST_type (AST_Dict keys values) = AST_TYPE_Dict"
| "AST_type (AST_DictComp key value generators) = AST_TYPE_DictComp"
| "AST_type AST_Ellipsis = AST_TYPE_Ellipsis"
| "AST_type (AST_ExceptHandler type name body) = AST_TYPE_ExceptHandler"
| "AST_type (AST_Exec body globals locals) = AST_TYPE_Exec"
| "AST_type (AST_Expr value) = AST_TYPE_Expr"
| "AST_type (AST_ExtSlice dims) = AST_TYPE_ExtSlice"
| "AST_type (AST_For target iter body orelse) = AST_TYPE_For"
| "AST_type (AST_FunctionDef name args body decorator_list) = AST_TYPE_FunctionDef"
| "AST_type (AST_GeneratorExp elt generators) = AST_TYPE_GeneratorExp"
| "AST_type (AST_Global names) = AST_TYPE_Global"
| "AST_type (AST_If test body orelse) = AST_TYPE_If"
| "AST_type (AST_IfExp test body orelse) = AST_TYPE_IfExp"
| "AST_type (AST_Import names) = AST_TYPE_Import"
| "AST_type (AST_ImportFrom module names) = AST_TYPE_ImportFrom"
| "AST_type (AST_Index value) = AST_TYPE_Index"
| "AST_type (AST_Invoke stmt normal_dest exc_dest) = AST_TYPE_Invoke"
| "AST_type (AST_keyword arg value) = AST_TYPE_keyword"
| "AST_type (AST_Lambda args body) = AST_TYPE_Lambda"
| "AST_type (AST_LangPrimitive opcode args) = AST_TYPE_LangPrimitive"
| "AST_type (AST_List elts) = AST_TYPE_List"
| "AST_type (AST_ListComp elt generators) = AST_TYPE_ListComp"
| "AST_type (AST_Module body) = AST_TYPE_Module"
| "AST_type (AST_Expression body) = AST_TYPE_Expression"
| "AST_type (AST_Suite body) = AST_TYPE_Suite"
| "AST_type (AST_Name id') = AST_TYPE_Name"
| "AST_type (AST_Num num_type n_int n_long n_float) = AST_TYPE_Num"
| "AST_type AST_Pass = AST_TYPE_Pass"
| "AST_type (AST_Print dest values nl) = AST_TYPE_Print"
| "AST_type (AST_Raise arg0 arg1 arg2) = AST_TYPE_Raise"
| "AST_type (AST_Repr value) = AST_TYPE_Repr"
| "AST_type (AST_Return value) = AST_TYPE_Return"
| "AST_type (AST_Set elts) = AST_TYPE_Set"
| "AST_type (AST_SetComp elt generators) = AST_TYPE_SetComp"
| "AST_type (AST_Slice lower upper step) = AST_TYPE_Slice"
| "AST_type (AST_Str str_type str_data) = AST_TYPE_Str"
| "AST_type (AST_Subscript value slice') = AST_TYPE_Subscript"
| "AST_type (AST_TryExcept body orelse handlers) = AST_TYPE_TryExcept"
| "AST_type (AST_TryFinally body finalbody) = AST_TYPE_TryFinally"
| "AST_type (AST_Tuple elts) = AST_TYPE_Tuple"
| "AST_type (AST_UnaryOp op_type operand) = AST_TYPE_UnaryOp"
| "AST_type (AST_While test body orelse) = AST_TYPE_While"
| "AST_type (AST_With context_expr optional_vars body) = AST_TYPE_With"
| "AST_type (AST_Yield value) = AST_TYPE_Yield"
| "AST_type (AST_ClsAttribute value attr) = AST_TYPE_ClsAttribute"

section \<open>Visitor dispatch\<close>

text \<open>
  \<^verbatim>\<open>ASTVisitor\<close> has one virtual method \<^verbatim>\<open>bool visit_x(AST_X* node)\<close> for each node class.
  A visitor is the table of its methods: each takes the node and the visitor's own state
  and either ends the process or returns its \<^verbatim>\<open>bool\<close> with the new state.
\<close>

datatype (plugins only: code) visit_method =
    visit_alias | visit_arguments | visit_assert | visit_assign | visit_augassign
  | visit_augbinop | visit_attribute | visit_binop | visit_boolop | visit_break
  | visit_call | visit_compare | visit_comprehension | visit_classdef | visit_continue
  | visit_delete | visit_dict | visit_dictcomp | visit_ellipsis | visit_excepthandler
  | visit_exec | visit_expr | visit_extslice | visit_for | visit_functiondef
  | visit_generatorexp | visit_global | visit_if | visit_ifexp | visit_import
  | visit_importfrom | visit_index | visit_invoke | visit_keyword | visit_lambda
  | visit_langprimitive | visit_list | visit_listcomp | visit_module | visit_expression
  | visit_suite | visit_name | visit_num | visit_pass | visit_print
  | visit_raise | visit_repr | visit_return | visit_set | visit_setcomp
  | visit_slice | visit_str | visit_subscript | visit_tryexcept | visit_tryfinally
  | visit_tuple | visit_unaryop | visit_while | visit_with | visit_yield
  | visit_clsattribute

type_synonym 's ASTVisitor = "visit_method \<Rightarrow> AST \<Rightarrow> 's \<Rightarrow> fatal + bool \<times> 's"

type_synonym 's action = "'s \<Rightarrow> fatal + 's"

text \<open>One statement after another; the first that ends the process ends the sequence.\<close>

definition and_then :: "'s action \<Rightarrow> 's action \<Rightarrow> 's action" where
  "and_then f g s = (case f s of Inl e \<Rightarrow> Inl e | Inr s' \<Rightarrow> g s')"

primrec in_order :: "'s action list \<Rightarrow> 's action" where
  "in_order [] = Inr"
| "in_order (f # fs) = and_then f (in_order fs)"

text \<open>
  \<^verbatim>\<open>visitVector(vec, v)\<close>: \<^verbatim>\<open>for (int i = 0; i < vec.size(); i++) vec[i]->accept(v);\<close>
  The argument is the list of the calls \<^verbatim>\<open>vec[i]->accept(v)\<close>.
\<close>

definition visitVector :: "'s action list \<Rightarrow> 's action" where
  "visitVector vec = in_order vec"

text \<open>\<^verbatim>\<open>if (p) p->accept(v);\<close>\<close>

primrec if_present :: "'s action option \<Rightarrow> 's action" where
  "if_present None = Inr"
| "if_present (Some f) = f"

text \<open>
  The loop of \<^verbatim>\<open>AST_Dict::accept\<close>:
  \<^verbatim>\<open>for (int i = 0; i < keys.size(); i++) { keys[i]->accept(v); values[i]->accept(v); }\<close>
  With fewer values than keys, \<^verbatim>\<open>values[i]\<close> reads past the end of the vector.
\<close>

fun visit_pairs :: "'s action list \<Rightarrow> 's action list \<Rightarrow> 's action" where
  "visit_pairs [] vs = Inr"
| "visit_pairs (k # ks) [] = and_then k (\<lambda>s. Inl Index_out_of_range)"
| "visit_pairs (k # ks) (v # vs) = and_then k (and_then v (visit_pairs ks vs))"

text \<open>
  \<^verbatim>\<open>bool skip = v->visit_x(this); if (skip) return;\<close> followed by the rest of the method.
\<close>

definition unless_skip :: "fatal + bool \<times> 's \<Rightarrow> 's action \<Rightarrow> fatal + 's" where
  "unless_skip r rest =
     (case r of
        Inl e \<Rightarrow> Inl e
      | Inr (skip, s') \<Rightarrow> if skip then Inr s' else rest s')"

text \<open>
  \<^verbatim>\<open>bool skip = v->visit_x(this);\<close> alone, as in \<^verbatim>\<open>AST_Name::accept\<close>, \<^verbatim>\<open>AST_Num::accept\<close>
  and \<^verbatim>\<open>AST_Pass::accept\<close>.
\<close>

definition ignore_skip :: "fatal + bool \<times> 's \<Rightarrow> fatal + 's" where
  "ignore_skip r = (case r of Inl e \<Rightarrow> Inl e | Inr (skip, s') \<Rightarrow> Inr s')"

text \<open>\<^verbatim>\<open>void AST_X::accept(ASTVisitor* v)\<close>, one equation for each class.\<close>

primrec accept :: "AST \<Rightarrow> 's ASTVisitor \<Rightarrow> 's \<Rightarrow> fatal + 's" where
  "accept (AST_alias name asname) v s =
     unless_skip (v visit_alias (AST_alias name asname) s) (in_order [])"
| "accept (AST_arguments args vararg kwarg defaults) v s =
     unless_skip (v visit_arguments (AST_arguments args vararg kwarg defaults) s)
       (in_order [visitVector (map (\<lambda>n. accept n v) defaults),
          visitVector (map (\<lambda>n. accept n v) args),
          if_present (map_option (\<lambda>n. accept n v) kwarg),
          if_present (map_option (\<lambda>n. accept n v) vararg)])"
| "accept (AST_Assert test msg) v s =
     unless_skip (v visit_assert (AST_Assert test msg) s)
       (in_order [accept test v,
          if_present (map_option (\<lambda>n. accept n v) msg)])"
| "accept (AST_Assign targets value) v s =
     unless_skip (v visit_assign (AST_Assign targets value) s)
       (in_order [accept value v,
          visitVector (map (\<lambda>n. accept n v) targets)])"
| "accept (AST_AugAssign target op_type value) v s =
     unless_skip (v visit_augassign (AST_AugAssign target op_type value) s)
       (in_order [accept value v,
          accept target v])"
| "accept (AST_AugBinOp left op_type right) v s =
     unless_skip (v visit_augbinop (AST_AugBinOp left op_type right) s)
       (in_order [accept left v,
          accept right v])"
| "accept (AST_Attribute value attr) v s =
     unless_skip (v visit_attribute (AST_Attribute value attr) s)
       (in_order [accept value v])"
| "accept (AST_BinOp left op_type right) v s =
     unless_skip (v visit_binop (AST_BinOp left op_type right) s)
       (in_order [accept left v,
          accept right v])"
| "accept (AST_BoolOp op_type values) v s =
     unless_skip (v visit_boolop (AST_BoolOp op_type values) s)
       (in_order [visitVector (map (\<lambda>n. accept n v) values)])"
| "accept AST_Break v s =
     unless_skip (v visit_break AST_Break s) (in_order [])"
| "accept (AST_Call func args keywords starargs kwargs) v s =
     unless_skip (v visit_call (AST_Call func args keywords starargs kwargs) s)
       (in_order [accept func v,
          visitVector (map (\<lambda>n. accept n v) args),
          visitVector (map (\<lambda>n. accept n v) keywords),
          if_present (map_option (\<lambda>n. accept n v) starargs),
          if_present (map_option (\<lambda>n. accept n v) kwargs)])"
| "accept (AST_Compare left ops comparators) v s =
     unless_skip (v visit_compare (AST_Compare left ops comparators) s)
       (in_order [accept left v,
          visitVector (map (\<lambda>n. accept n v) comparators)])"
| "accept (AST_comprehension target iter ifs) v s =
     unless_skip (v visit_comprehension (AST_comprehension target iter ifs) s)
       (in_order [accept target v,
          accept iter v,
          visitVector (map (\<lambda>n. accept n v) ifs)])"
| "accept (AST_ClassDef name bases body decorator_list) v s =
     unless_skip (v visit_classdef (AST_ClassDef name bases body decorator_list) s)
       (in_order [visitVector (map (\<lambda>n. accept n v) bases),
          visitVector (map (\<lambda>n. accept n v) decorator_list),
          visitVector (map (\<lambda>n. accept n v) body)])"
| "accept AST_Continue v s =
     unless_skip (v visit_continue AST_Continue s) (in_order [])"
| "accept (AST_Delete targets) v s =
     unless_skip (v visit_delete (AST_Delete targets) s)
       (in_order [visitVector (map (\<lambda>n. accept n v) targets)])"
| "accept (AST_Dict keys values) v s =
     unless_skip (v visit_dict (AST_Dict keys values) s)
       (in_order [visit_pairs (map (\<lambda>n. accept n v) keys)
            (map (\<lambda>n. accept n v) values)])"
| "accept (AST_DictComp key value generators) v s =
     unless_skip (v visit_dictcomp (AST_DictComp key value generators) s)
       (in_order [visitVector (map (\<lambda>n. accept n v) generators),
          accept value v,
          accept key v])"
| "accept AST_Ellipsis v s =
     unless_skip (v visit_ellipsis AST_Ellipsis s) (in_order [])"
| "accept (AST_ExceptHandler type name body) v s =
     unless_skip (v visit_excepthandler (AST_ExceptHandler type name body) s)
       (in_order [if_present (map_option (\<lambda>n. accept n v) type),
          if_present (map_option (\<lambda>n. accept n v) name),
          visitVector (map (\<lambda>n. accept n v) body)])"
| "accept (AST_Exec body globals locals) v s =
     unless_skip (v visit_exec (AST_Exec body globals locals) s)
       (in_order [if_present (map_option (\<lambda>n. accept n v) body),
          if_present (map_option (\<lambda>n. accept n v) globals),
          if_present (map_option (\<lambda>n. accept n v) locals)])"
| "accept (AST_Expr value) v s =
     unless_skip (v visit_expr (AST_Expr value) s) (in_order [accept value v])"
| "accept (AST_ExtSlice dims) v s =
     unless_skip (v visit_extslice (AST_ExtSlice dims) s)
       (in_order [visitVector (map (\<lambda>n. accept n v) dims)])"
| "accept (AST_For target iter body orelse) v s =
     unless_skip (v visit_for (AST_For target iter body orelse) s)
       (in_order [accept iter v,
          accept target v,
          visitVector (map (\<lambda>n. accept n v) body),
          visitVector (map (\<lambda>n. accept n v) orelse)])"
| "accept (AST_FunctionDef name args body decorator_list) v s =
     unless_skip (v visit_functiondef (AST_FunctionDef name args body decorator_list) s)
       (in_order [visitVector (map (\<lambda>n. accept n v) decorator_list),
          accept args v,
          visitVector (map (\<lambda>n. accept n v) body)])"
| "accept (AST_GeneratorExp elt generators) v s =
     unless_skip (v visit_generatorexp (AST_GeneratorExp elt generators) s)
       (in_order [visitVector (map (\<lambda>n. accept n v) generators),
          accept elt v])"
| "accept (AST_Global names) v s =
     unless_skip (v visit_global (AST_Global names) s) (in_order [])"
| "accept (AST_If test body orelse) v s =
     unless_skip (v visit_if (AST_If test body orelse) s)
       (in_order [accept test v,
          visitVector (map (\<lambda>n. accept n v) body),
          visitVector (map (\<lambda>n. accept n v) orelse)])"
| "accept (AST_IfExp test body orelse) v s =
     unless_skip (v visit_ifexp (AST_IfExp test body orelse) s)
       (in_order [accept test v,
          accept body v,
          accept orelse v])"
| "accept (AST_Import names) v s =
     unless_skip (v visit_import (AST_Import names) s)
       (in_order [visitVector (map (\<lambda>n. accept n v) names)])"
| "accept (AST_ImportFrom module names) v s =
     unless_skip (v visit_importfrom (AST_ImportFrom module names) s)
       (in_order [visitVector (map (\<lambda>n. accept n v) names)])"
| "accept (AST_Index value) v s =
     unless_skip (v visit_index (AST_Index value) s)
       (in_order [accept value v])"
| "accept (AST_Invoke stmt normal_dest exc_dest) v s =
     unless_skip (v visit_invoke (AST_Invoke stmt normal_dest exc_dest) s)
       (in_order [accept stmt v])"
| "accept (AST_keyword arg value) v s =
     unless_skip (v visit_keyword (AST_keyword arg value) s)
       (in_order [accept value v])"
| "accept (AST_Lambda args body) v s =
     unless_skip (v visit_lambda (AST_Lambda args body) s)
       (in_order [accept args v,
          accept body v])"
| "accept (AST_LangPrimitive opcode args) v s =
     unless_skip (v visit_langprimitive (AST_LangPrimitive opcode args) s)
       (in_order [visitVector (map (\<lambda>n. accept n v) args)])"
| "accept (AST_List elts) v s =
     unless_skip (v visit_list (AST_List elts) s)
       (in_order [visitVector (map (\<lambda>n. accept n v) elts)])"
| "accept (AST_ListComp elt generators) v s =
     unless_skip (v visit_listcomp (AST_ListComp elt generators) s)
       (in_order [visitVector (map (\<lambda>n. accept n v) generators),
          accept elt v])"
| "accept (AST_Module body) v s =
     unless_skip (v visit_module (AST_Module body) s)
       (in_order [visitVector (map (\<lambda>n. accept n v) body)])"
| "accept (AST_Expression body) v s =
     unless_skip (v visit_expression (AST_Expression body) s)
       (in_order [accept body v])"
| "accept (AST_Suite body) v s =
     unless_skip (v visit_suite (AST_Suite body) s)
       (in_order [visitVector (map (\<lambda>n. accept n v) body)])"
| "accept (AST_Name id') v s =
     ignore_skip (v visit_name (AST_Name id') s)"
| "accept (AST_Num num_type n_int n_long n_float) v s =
     ignore_skip (v visit_num (AST_Num num_type n_int n_long n_float) s)"
| "accept AST_Pass v s =
     ignore_skip (v visit_pass AST_Pass s)"
| "accept (AST_Print dest values nl) v s =
     unless_skip (v visit_print (AST_Print dest values nl) s)
       (in_order [if_present (map_option (\<lambda>n. accept n v) dest),
          visitVector (map (\<lambda>n. accept n v) values)])"
| "accept (AST_Raise arg0 arg1 arg2) v s =
     unless_skip (v visit_raise (AST_Raise arg0 arg1 arg2) s)
       (in_order [if_present (map_option (\<lambda>n. accept n v) arg0),
          if_present (map_option (\<lambda>n. accept n v) arg1),
          if_present (map_option (\<lambda>n. accept n v) arg2)])"
| "accept (AST_Repr value) v s =
     unless_skip (v visit_repr (AST_Repr value) s) (in_order [accept value v])"
| "accept (AST_Return value) v s =
     unless_skip (v visit_return (AST_Return value) s)
       (in_order [if_present (map_option (\<lambda>n. accept n v) value)])"
| "accept (AST_Set elts) v s =
     unless_skip (v visit_set (AST_Set elts) s)
       (in_order [visitVector (map (\<lambda>n. accept n v) elts)])"
| "accept (AST_SetComp elt generators) v s =
     unless_skip (v visit_setcomp (AST_SetComp elt generators) s)
       (in_order [visitVector (map (\<lambda>n. accept n v) generators),
          accept elt v])"
| "accept (AST_Slice lower upper step) v s =
     unless_skip (v visit_slice (AST_Slice lower upper step) s)
       (in_order [if_present (map_option (\<lambda>n. accept n v) lower),
          if_present (map_option (\<lambda>n. accept n v) upper),
          if_present (map_option (\<lambda>n. accept n v) step)])"
| "accept (AST_Str str_type str_data) v s =
     unless_skip (v visit_str (AST_Str str_type str_data) s) (in_order [])"
| "accept (AST_Subscript value slice') v s =
     unless_skip (v visit_subscript (AST_Subscript value slice') s)
       (in_order [accept value v,
          accept slice' v])"
| "accept (AST_TryExcept body orelse handlers) v s =
     unless_skip (v visit_tryexcept (AST_TryExcept body orelse handlers) s)
       (in_order [visitVector (map (\<lambda>n. accept n v) body),
          visitVector (map (\<lambda>n. accept n v) orelse),
          visitVector (map (\<lambda>n. accept n v) handlers)])"
| "accept (AST_TryFinally body finalbody) v s =
     unless_skip (v visit_tryfinally (AST_TryFinally body finalbody) s)
       (in_order [visitVector (map (\<lambda>n. accept n v) body),
          visitVector (map (\<lambda>n. accept n v) finalbody)])"
| "accept (AST_Tuple elts) v s =
     unless_skip (v visit_tuple (AST_Tuple elts) s)
       (in_order [visitVector (map (\<lambda>n. accept n v) elts)])"
| "accept (AST_UnaryOp op_type operand) v s =
     unless_skip (v visit_unaryop (AST_UnaryOp op_type operand) s)
       (in_order [accept operand v])"
| "accept (AST_While test body orelse) v s =
     unless_skip (v visit_while (AST_While test body orelse) s)
       (in_order [accept test v,
          visitVector (map (\<lambda>n. accept n v) body),
          visitVector (map (\<lambda>n. accept n v) orelse)])"
| "accept (AST_With context_expr optional_vars body) v s =
     unless_skip (v visit_with (AST_With context_expr optional_vars body) s)
       (in_order [accept context_expr v,
          if_present (map_option (\<lambda>n. accept n v) optional_vars),
          visitVector (map (\<lambda>n. accept n v) body)])"
| "accept (AST_Yield value) v s =
     unless_skip (v visit_yield (AST_Yield value) s)
       (in_order [if_present (map_option (\<lambda>n. accept n v) value)])"
| "accept (AST_ClsAttribute value attr) v s =
     unless_skip (v visit_clsattribute (AST_ClsAttribute value attr) s)
       (in_order [accept value v])"

text \<open>
  The handler that belongs to a node's kind, and the children of a node in the order in
  which its \<^verbatim>\<open>accept\<close> visits them. The children of a \<^verbatim>\<open>Dict\<close> are
  \<^verbatim>\<open>keys[0], values[0], keys[1], values[1], ...\<close> up to the first missing value.
\<close>

primrec visit_of :: "AST \<Rightarrow> visit_method" where
  "visit_of (AST_alias name asname) = visit_alias"
| "visit_of (AST_arguments args vararg kwarg defaults) = visit_arguments"
| "visit_of (AST_Assert test msg) = visit_assert"
| "visit_of (AST_Assign targets value) = visit_assign"
| "visit_of (AST_AugAssign target op_type value) = visit_augassign"
| "visit_of (AST_AugBinOp left op_type right) = visit_augbinop"
| "visit_of (AST_Attribute value attr) = visit_attribute"
| "visit_of (AST_BinOp left op_type right) = visit_binop"
| "visit_of (AST_BoolOp op_type values) = visit_boolop"
| "visit_of AST_Break = visit_break"
| "visit_of (AST_Call func args keywords starargs kwargs) = visit_call"
| "visit_of (AST_Compare left ops comparators) = visit_compare"
| "visit_of (AST_comprehension target iter ifs) = visit_comprehension"
| "visit_of (AST_ClassDef name bases body decorator_list) = visit_classdef"
| "visit_of AST_Continue = visit_continue"
| "visit_of (AST_Delete targets) = visit_delete"
| "visit_of (AST_Dict keys values) = visit_dict"
| "visit_of (AST_DictComp key value generators) = visit_dictcomp"
| "visit_of AST_Ellipsis = visit_ellipsis"
| "visit_of (AST_ExceptHandler type name body) = visit_excepthandler"
| "visit_of (AST_Exec body globals locals) = visit_exec"
| "visit_of (AST_Expr value) = visit_expr"
| "visit_of (AST_ExtSlice dims) = visit_extslice"
| "visit_of (AST_For target iter body orelse) = visit_for"
| "visit_of (AST_FunctionDef name args body decorator_list) = visit_functiondef"
| "visit_of (AST_GeneratorExp elt generators) = visit_generatorexp"
| "visit_of (AST_Global names) = visit_global"
| "visit_of (AST_If test body orelse) = visit_if"
| "visit_of (AST_IfExp test body orelse) = visit_ifexp"
| "visit_of (AST_Import names) = visit_import"
| "visit_of (AST_ImportFrom module names) = visit_importfrom"
| "visit_of (AST_Index value) = visit_index"
| "visit_of (AST_Invoke stmt normal_dest exc_dest) = visit_invoke"
| "visit_of (AST_keyword arg value) = visit_keyword"
| "visit_of (AST_Lambda args body) = visit_lambda"
| "visit_of (AST_LangPrimitive opcode args) = visit_langprimitive"
| "visit_of (AST_List elts) = visit_list"
| "visit_of (AST_ListComp elt generators) = visit_listcomp"
| "visit_of (AST_Module body) = visit_module"
| "visit_of (AST_Expression body) = visit_expression"
| "visit_of (AST_Suite body) = visit_suite"
| "visit_of (AST_Name id') = visit_name"
| "visit_of (AST_Num num_type n_int n_long n_float) = visit_num"
| "visit_of AST_Pass = visit_pass"
| "visit_of (AST_Print dest values nl) = visit_print"
| "visit_of (AST_Raise arg0 arg1 arg2) = visit_raise"
| "visit_of (AST_Repr value) = visit_repr"
| "visit_of (AST_Return value) = visit_return"
| "visit_of (AST_Set elts) = visit_set"
| "visit_of (AST_SetComp elt generators) = visit_setcomp"
| "visit_of (AST_Slice lower upper step) = visit_slice"
| "visit_of (AST_Str str_type str_data) = visit_str"
| "visit_of (AST_Subscript value slice') = visit_subscript"
| "visit_of (AST_TryExcept body orelse handlers) = visit_tryexcept"
| "visit_of (AST_TryFinally body finalbody) = visit_tryfinally"
| "visit_of (AST_Tuple elts) = visit_tuple"
| "visit_of (AST_UnaryOp op_type operand) = visit_unaryop"
| "visit_of (AST_While test body orelse) = visit_while"
| "visit_of (AST_With context_expr optional_vars body) = visit_with"
| "visit_of (AST_Yield value) = visit_yield"
| "visit_of (AST_ClsAttribute value attr) = visit_clsattribute"

fun pairs :: "'a list \<Rightarrow> 'a list \<Rightarrow> 'a list" where
  "pairs [] vs = []"
| "pairs (k # ks) [] = [k]"
| "pairs (k # ks) (v # vs) = k # v # pairs ks vs"

primrec opt_child :: "'a option \<Rightarrow> 'a list" where
  "opt_child None = []"
| "opt_child (Some n) = [n]"

primrec children :: "AST \<Rightarrow> AST list" where
  "children (AST_alias name asname) = []"
| "children (AST_arguments args vararg kwarg defaults) =
     defaults @ args @ opt_child kwarg @ opt_child vararg"
| "children (AST_Assert test msg) = [test] @ opt_child msg"
| "children (AST_Assign targets value) = [value] @ targets"
| "children (AST_AugAssign target op_type value) = [value] @ [target]"
| "children (AST_AugBinOp left op_type right) = [left] @ [right]"
| "children (AST_Attribute value attr) = [value]"
| "children (AST_BinOp left op_type right) = [left] @ [right]"
| "children (AST_BoolOp op_type values) = values"
| "children AST_Break = []"
| "children (AST_Call func args keywords starargs kwargs) =
     [func] @ args @ keywords @ opt_child starargs @ opt_child kwargs"
| "children (AST_Compare left ops comparators) = [left] @ comparators"
| "children (AST_comprehension target iter ifs) = [target] @ [iter] @ ifs"
| "children (AST_ClassDef name bases body decorator_list) = bases @ decorator_list @ body"
| "children AST_Continue = []"
| "children (AST_Delete targets) = targets"
| "children (AST_Dict keys values) = pairs keys values"
| "children (AST_DictComp key value generators) = generators @ [value] @ [key]"
| "children AST_Ellipsis = []"
| "children (AST_ExceptHandler type name body) = opt_child type @ opt_child name @ body"
| "children (AST_Exec body globals locals) =
     opt_child body @ opt_child globals @ opt_child locals"
| "children (AST_Expr value) = [value]"
| "children (AST_ExtSlice dims) = dims"
| "children (AST_For target iter body orelse) = [iter] @ [target] @ body @ orelse"
| "children (AST_FunctionDef name args body decorator_list) = decorator_list @ [args] @ body"
| "children (AST_GeneratorExp elt generators) = generators @ [elt]"
| "children (AST_Global names) = []"
| "children (AST_If test body orelse) = [test] @ body @ orelse"
| "children (AST_IfExp test body orelse) = [test] @ [body] @ [orelse]"
| "children (AST_Import names) = names"
| "children (AST_ImportFrom module names) = names"
| "children (AST_Index value) = [value]"
| "children (AST_Invoke stmt normal_dest exc_dest) = [stmt]"
| "children (AST_keyword arg value) = [value]"
| "children (AST_Lambda args body) = [args] @ [body]"
| "children (AST_LangPrimitive opcode args) = args"
| "children (AST_List elts) = elts"
| "children (AST_ListComp elt generators) = generators @ [elt]"
| "children (AST_Module body) = body"
| "children (AST_Expression body) = [body]"
| "children (AST_Suite body) = body"
| "children (AST_Name id') = []"
| "children (AST_Num num_type n_int n_long n_float) = []"
| "children AST_Pass = []"
| "children (AST_Print dest values nl) = opt_child dest @ values"
| "children (AST_Raise arg0 arg1 arg2) = opt_child arg0 @ opt_child arg1 @ opt_child arg2"
| "children (AST_Repr value) = [value]"
| "children (AST_Return value) = opt_child value"
| "children (AST_Set elts) = elts"
| "children (AST_SetComp elt generators) = generators @ [elt]"
| "children (AST_Slice lower upper step) = opt_child lower @ opt_child upper @ opt_child step"
| "children (AST_Str str_type str_data) = []"
| "children (AST_Subscript value slice') = [value] @ [slice']"
| "children (AST_TryExcept body orelse handlers) = body @ orelse @ handlers"
| "children (AST_TryFinally body finalbody) = body @ finalbody"
| "children (AST_Tuple elts) = elts"
| "children (AST_UnaryOp op_type operand) = [operand]"
| "children (AST_While test body orelse) = [test] @ body @ orelse"
| "children (AST_With context_expr optional_vars body) =
     [context_expr] @ opt_child optional_vars @ body"
| "children (AST_Yield value) = opt_child value"
| "children (AST_ClsAttribute value attr) = [value]"


text \<open>No index of the node's own \<^verbatim>\<open>accept\<close> is out of range.\<close>

definition in_range :: "AST \<Rightarrow> bool" where
  "in_range n =
     (case n of AST_Dict keys values \<Rightarrow> length keys \<le> length values | _ \<Rightarrow> True)"

text \<open>
  The nodes of a tree in pre-order: the node, then the pre-orders of its children in the
  order of \<^verbatim>\<open>accept\<close>. This is the sequence in which a visitor that never skips is called.
\<close>

primrec preorder :: "AST \<Rightarrow> AST list" where
  "preorder (AST_alias name asname) =
     [AST_alias name asname]"
| "preorder (AST_arguments args vararg kwarg defaults) =
     AST_arguments args vararg kwarg defaults #
       (concat (map preorder defaults) @
        concat (map preorder args) @
        concat (opt_child (map_option preorder kwarg)) @
        concat (opt_child (map_option preorder vararg)))"
| "preorder (AST_Assert test msg) =
     AST_Assert test msg #
       (preorder test @
        concat (opt_child (map_option preorder msg)))"
| "preorder (AST_Assign targets value) =
     AST_Assign targets value #
       (preorder value @
        concat (map preorder targets))"
| "preorder (AST_AugAssign target op_type value) =
     AST_AugAssign target op_type value #
       (preorder value @
        preorder target)"
| "preorder (AST_AugBinOp left op_type right) =
     AST_AugBinOp left op_type right #
       (preorder left @
        preorder right)"
| "preorder (AST_Attribute value attr) =
     AST_Attribute value attr #
       (preorder value)"
| "preorder (AST_BinOp left op_type right) =
     AST_BinOp left op_type right #
       (preorder left @
        preorder right)"
| "preorder (AST_BoolOp op_type values) =
     AST_BoolOp op_type values #
       (concat (map preorder values))"
| "preorder AST_Break =
     [AST_Break]"
| "preorder (AST_Call func args keywords starargs kwargs) =
     AST_Call func args keywords starargs kwargs #
       (preorder func @
        concat (map preorder args) @
        concat (map preorder keywords) @
        concat (opt_child (map_option preorder starargs)) @
        concat (opt_child (map_option preorder kwargs)))"
| "preorder (AST_Compare left ops comparators) =
     AST_Compare left ops comparators #
       (preorder left @
        concat (map preorder comparators))"
| "preorder (AST_comprehension target iter ifs) =
     AST_comprehension target iter ifs #
       (preorder target @
        preorder iter @
        concat (map preorder ifs))"
| "preorder (AST_ClassDef name bases body decorator_list) =
     AST_ClassDef name bases body decorator_list #
       (concat (map preorder bases) @
        concat (map preorder decorator_list) @
        concat (map preorder body))"
| "preorder AST_Continue =
     [AST_Continue]"
| "preorder (AST_Delete targets) =
     AST_Delete targets #
       (concat (map preorder targets))"
| "preorder (AST_Dict keys values) =
     AST_Dict keys values #
       (concat (pairs (map preorder keys) (map preorder values)))"
| "preorder (AST_DictComp key value generators) =
     AST_DictComp key value generators #
       (concat (map preorder generators) @
        preorder value @
        preorder key)"
| "preorder AST_Ellipsis =
     [AST_Ellipsis]"
| "preorder (AST_ExceptHandler type name body) =
     AST_ExceptHandler type name body #
       (concat (opt_child (map_option preorder type)) @
        concat (opt_child (map_option preorder name)) @
        concat (map preorder body))"
| "preorder (AST_Exec body globals locals) =
     AST_Exec body globals locals #
       (concat (opt_child (map_option preorder body)) @
        concat (opt_child (map_option preorder globals)) @
        concat (opt_child (map_option preorder locals)))"
| "preorder (AST_Expr value) =
     AST_Expr value # (preorder value)"
| "preorder (AST_ExtSlice dims) =
     AST_ExtSlice dims #
       (concat (map preorder dims))"
| "preorder (AST_For target iter body orelse) =
     AST_For target iter body orelse #
       (preorder iter @
        preorder target @
        concat (map preorder body) @
        concat (map preorder orelse))"
| "preorder (AST_FunctionDef name args body decorator_list) =
     AST_FunctionDef name args body decorator_list #
       (concat (map preorder decorator_list) @
        preorder args @
        concat (map preorder body))"
| "preorder (AST_GeneratorExp elt generators) =
     AST_GeneratorExp elt generators #
       (concat (map preorder generators) @
        preorder elt)"
| "preorder (AST_Global names) =
     [AST_Global names]"
| "preorder (AST_If test body orelse) =
     AST_If test body orelse #
       (preorder test @
        concat (map preorder body) @
        concat (map preorder orelse))"
| "preorder (AST_IfExp test body orelse) =
     AST_IfExp test body orelse #
       (preorder test @
        preorder body @
        preorder orelse)"
| "preorder (AST_Import names) =
     AST_Import names #
       (concat (map preorder names))"
| "preorder (AST_ImportFrom module names) =
     AST_ImportFrom module names #
       (concat (map preorder names))"
| "preorder (AST_Index value) =
     AST_Index value # (preorder value)"
| "preorder (AST_Invoke stmt normal_dest exc_dest) =
     AST_Invoke stmt normal_dest exc_dest #
       (preorder stmt)"
| "preorder (AST_keyword arg value) =
     AST_keyword arg value # (preorder value)"
| "preorder (AST_Lambda args body) =
     AST_Lambda args body #
       (preorder args @
        preorder body)"
| "preorder (AST_LangPrimitive opcode args) =
     AST_LangPrimitive opcode args #
       (concat (map preorder args))"
| "preorder (AST_List elts) =
     AST_List elts # (concat (map preorder elts))"
| "preorder (AST_ListComp elt generators) =
     AST_ListComp elt generators #
       (concat (map preorder generators) @
        preorder elt)"
| "preorder (AST_Module body) =
     AST_Module body # (concat (map preorder body))"
| "preorder (AST_Expression body) =
     AST_Expression body # (preorder body)"
| "preorder (AST_Suite body) =
     AST_Suite body # (concat (map preorder body))"
| "preorder (AST_Name id') =
     [AST_Name id']"
| "preorder (AST_Num num_type n_int n_long n_float) =
     [AST_Num num_type n_int n_long n_float]"
| "preorder AST_Pass =
     [AST_Pass]"
| "preorder (AST_Print dest values nl) =
     AST_Print dest values nl #
       (concat (opt_child (map_option preorder dest)) @
        concat (map preorder values))"
| "preorder (AST_Raise arg0 arg1 arg2) =
     AST_Raise arg0 arg1 arg2 #
       (concat (opt_child (map_option preorder arg0)) @
        concat (opt_child (map_option preorder arg1)) @
        concat (opt_child (map_option preorder arg2)))"
| "preorder (AST_Repr value) =
     AST_Repr value # (preorder value)"
| "preorder (AST_Return value) =
     AST_Return value #
       (concat (opt_child (map_option preorder value)))"
| "preorder (AST_Set elts) =
     AST_Set elts # (concat (map preorder elts))"
| "preorder (AST_SetComp elt generators) =
     AST_SetComp elt generators #
       (concat (map preorder generators) @
        preorder elt)"
| "preorder (AST_Slice lower upper step) =
     AST_Slice lower upper step #
       (concat (opt_child (map_option preorder lower)) @
        concat (opt_child (map_option preorder upper)) @
        concat (opt_child (map_option preorder step)))"
| "preorder (AST_Str str_type str_data) =
     [AST_Str str_type str_data]"
| "preorder (AST_Subscript value slice') =
     AST_Subscript value slice' #
       (preorder value @
        preorder slice')"
| "preorder (AST_TryExcept body orelse handlers) =
     AST_TryExcept body orelse handlers #
       (concat (map preorder body) @
        concat (map preorder orelse) @
        concat (map preorder handlers))"
| "preorder (AST_TryFinally body finalbody) =
     AST_TryFinally body finalbody #
       (concat (map preorder body) @
        concat (map preorder finalbody))"
| "preorder (AST_Tuple elts) =
     AST_Tuple elts # (concat (map preorder elts))"
| "preorder (AST_UnaryOp op_type operand) =
     AST_UnaryOp op_type operand #
       (preorder operand)"
| "preorder (AST_While test body orelse) =
     AST_While test body orelse #
       (preorder test @
        concat (map preorder body) @
        concat (map preorder orelse))"
| "preorder (AST_With context_expr optional_vars body) =
     AST_With context_expr optional_vars body #
       (preorder context_expr @
        concat (opt_child (map_option preorder optional_vars)) @
        concat (map preorder body))"
| "preorder (AST_Yield value) =
     AST_Yield value #
       (concat (opt_child (map_option preorder value)))"
| "preorder (AST_ClsAttribute value attr) =
     AST_ClsAttribute value attr #
       (preorder value)"


definition recording_visitor :: "bool \<Rightarrow> AST list ASTVisitor" where
  "recording_visitor skip h node seen = Inr (skip, seen @ [node])"

section \<open>Flatten\<close>

text \<open>
  \<^verbatim>\<open>FlattenVisitor\<close> overrides every method of \<^verbatim>\<open>ASTVisitor\<close> but \<^verbatim>\<open>visit_expression\<close> and
  \<^verbatim>\<open>visit_suite\<close>, which it inherits; the base class is in \<^verbatim>\<open>core/ast.h\<close>, so its two
  methods are the parameter \<open>base\<close>. The state is the vector \<^verbatim>\<open>*output\<close>.
\<close>

primrec FlattenVisitor ::
  "AST list ASTVisitor \<Rightarrow> bool \<Rightarrow> AST list ASTVisitor" where
  "FlattenVisitor base expand_scopes visit_alias node output =
     Inr (False, output @ [node])"
| "FlattenVisitor base expand_scopes visit_arguments node output =
     Inr (False, output @ [node])"
| "FlattenVisitor base expand_scopes visit_assert node output =
     Inr (False, output @ [node])"
| "FlattenVisitor base expand_scopes visit_assign node output =
     Inr (False, output @ [node])"
| "FlattenVisitor base expand_scopes visit_augassign node output =
     Inr (False, output @ [node])"
| "FlattenVisitor base expand_scopes visit_augbinop node output =
     Inr (False, output @ [node])"
| "FlattenVisitor base expand_scopes visit_attribute node output =
     Inr (False, output @ [node])"
| "FlattenVisitor base expand_scopes visit_binop node output =
     Inr (False, output @ [node])"
| "FlattenVisitor base expand_scopes visit_boolop node output =
     Inr (False, output @ [node])"
| "FlattenVisitor base expand_scopes visit_break node output =
     Inr (False, output @ [node])"
| "FlattenVisitor base expand_scopes visit_call node output =
     Inr (False, output @ [node])"
| "FlattenVisitor base expand_scopes visit_classdef node output =
     Inr (\<not> expand_scopes, output @ [node])"
| "FlattenVisitor base expand_scopes visit_compare node output =
     Inr (False, output @ [node])"
| "FlattenVisitor base expand_scopes visit_comprehension node output =
     Inr (False, output @ [node])"
| "FlattenVisitor base expand_scopes visit_continue node output =
     Inr (False, output @ [node])"
| "FlattenVisitor base expand_scopes visit_delete node output =
     Inr (False, output @ [node])"
| "FlattenVisitor base expand_scopes visit_dict node output =
     Inr (False, output @ [node])"
| "FlattenVisitor base expand_scopes visit_dictcomp node output =
     Inr (False, output @ [node])"
| "FlattenVisitor base expand_scopes visit_ellipsis node output =
     Inr (False, output @ [node])"
| "FlattenVisitor base expand_scopes visit_excepthandler node output =
     Inr (False, output @ [node])"
| "FlattenVisitor base expand_scopes visit_exec node output =
     Inr (False, output @ [node])"
| "FlattenVisitor base expand_scopes visit_expr node output =
     Inr (False, output @ [node])"
| "FlattenVisitor base expand_scopes visit_extslice node output =
     Inr (False, output @ [node])"
| "FlattenVisitor base expand_scopes visit_for node output =
     Inr (\<not> expand_scopes, output @ [node])"
| "FlattenVisitor base expand_scopes visit_functiondef node output =
     Inr (\<not> expand_scopes, output @ [node])"
| "FlattenVisitor base expand_scopes visit_generatorexp node output =
     Inr (\<not> expand_scopes, output @ [node])"
| "FlattenVisitor base expand_scopes visit_global node output =
     Inr (False, output @ [node])"
| "FlattenVisitor base expand_scopes visit_if node output =
     Inr (False, output @ [node])"
| "FlattenVisitor base expand_scopes visit_ifexp node output =
     Inr (False, output @ [node])"
| "FlattenVisitor base expand_scopes visit_import node output =
     Inr (False, output @ [node])"
| "FlattenVisitor base expand_scopes visit_importfrom node output =
     Inr (False, output @ [node])"
| "FlattenVisitor base expand_scopes visit_index node output =
     Inr (False, output @ [node])"
| "FlattenVisitor base expand_scopes visit_invoke node output =
     Inr (False, output @ [node])"
| "FlattenVisitor base expand_scopes visit_keyword node output =
     Inr (False, output @ [node])"
| "FlattenVisitor base expand_scopes visit_lambda node output =
     Inr (\<not> expand_scopes, output @ [node])"
| "FlattenVisitor base expand_scopes visit_langprimitive node output =
     Inr (False, output @ [node])"
| "FlattenVisitor base expand_scopes visit_list node output =
     Inr (False, output @ [node])"
| "FlattenVisitor base expand_scopes visit_listcomp node output =
     Inr (False, output @ [node])"
| "FlattenVisitor base expand_scopes visit_module node output =
     Inr (\<not> expand_scopes, output @ [node])"
| "FlattenVisitor base expand_scopes visit_name node output =
     Inr (False, output @ [node])"
| "FlattenVisitor base expand_scopes visit_num node output =
     Inr (False, output @ [node])"
| "FlattenVisitor base expand_scopes visit_pass node output =
     Inr (False, output @ [node])"
| "FlattenVisitor base expand_scopes visit_print node output =
     Inr (False, output @ [node])"
| "FlattenVisitor base expand_scopes visit_raise node output =
     Inr (False, output @ [node])"
| "FlattenVisitor base expand_scopes visit_repr node output =
     Inr (False, output @ [node])"
| "FlattenVisitor base expand_scopes visit_return node output =
     Inr (False, output @ [node])"
| "FlattenVisitor base expand_scopes visit_set node output =
     Inr (False, output @ [node])"
| "FlattenVisitor base expand_scopes visit_setcomp node output =
     Inr (False, output @ [node])"
| "FlattenVisitor base expand_scopes visit_slice node output =
     Inr (False, output @ [node])"
| "FlattenVisitor base expand_scopes visit_str node output =
     Inr (False, output @ [node])"
| "FlattenVisitor base expand_scopes visit_subscript node output =
     Inr (False, output @ [node])"
| "FlattenVisitor base expand_scopes visit_tryexcept node output =
     Inr (False, output @ [node])"
| "FlattenVisitor base expand_scopes visit_tryfinally node output =
     Inr (False, output @ [node])"
| "FlattenVisitor base expand_scopes visit_tuple node output =
     Inr (False, output @ [node])"
| "FlattenVisitor base expand_scopes visit_unaryop node output =
     Inr (False, output @ [node])"
| "FlattenVisitor base expand_scopes visit_while node output =
     Inr (False, output @ [node])"
| "FlattenVisitor base expand_scopes visit_with node output =
     Inr (False, output @ [node])"
| "FlattenVisitor base expand_scopes visit_yield node output =
     Inr (False, output @ [node])"
| "FlattenVisitor base expand_scopes visit_clsattribute node output =
     Inr (False, output @ [node])"
| "FlattenVisitor base expand_scopes visit_expression node output =
     base visit_expression node output"
| "FlattenVisitor base expand_scopes visit_suite node output =
     base visit_suite node output"

text \<open>
  \<^verbatim>\<open>void flatten(llvm::ArrayRef<AST_stmt*> roots, std::vector<AST*>& output, bool expand_scopes)\<close>
  and the overload for one expression. Constructing the visitor runs
  \<^verbatim>\<open>assert(expand_scopes && "not sure if this works properly")\<close>, compiled unless
  \<^verbatim>\<open>NDEBUG\<close> is defined.
\<close>

definition flatten ::
  "bool \<Rightarrow> AST list ASTVisitor \<Rightarrow> AST list \<Rightarrow> AST list \<Rightarrow> bool \<Rightarrow> fatal + AST list" where
  "flatten ndebug base roots output expand_scopes =
     (if \<not> ndebug \<and> \<not> expand_scopes then Inl Assertion_failed
      else in_order (map (\<lambda>root. accept root (FlattenVisitor base expand_scopes)) roots)
             output)"

definition flatten_expr ::
  "bool \<Rightarrow> AST list ASTVisitor \<Rightarrow> AST \<Rightarrow> AST list \<Rightarrow> bool \<Rightarrow> fatal + AST list" where
  "flatten_expr ndebug base root output expand_scopes =
     (if \<not> ndebug \<and> \<not> expand_scopes then Inl Assertion_failed
      else accept root (FlattenVisitor base expand_scopes) output)"

text \<open>
  A base class all of whose methods end the process.
\<close>

definition unimplemented :: "'s ASTVisitor" where
  "unimplemented h node s = Inl Release_assert_failed"

text \<open>
  The trees on which \<^verbatim>\<open>FlattenVisitor\<close> runs no inherited method and reads no index out
  of range: no node of the tree is an \<^verbatim>\<open>Expression\<close> or a \<^verbatim>\<open>Suite\<close>, and no \<^verbatim>\<open>Dict\<close> has
  fewer values than keys.
\<close>

definition flattens :: "AST \<Rightarrow> bool" where
  "flattens n =
     list_all (\<lambda>m. in_range m \<and> visit_of m \<noteq> visit_expression \<and> visit_of m \<noteq> visit_suite)
       (preorder n)"

section \<open>Print\<close>

text \<open>
  The state of an \<^verbatim>\<open>ASTPrintVisitor\<close>: the text written to \<^verbatim>\<open>stream\<close> so far, and \<^verbatim>\<open>indent\<close>.
\<close>

record ASTPrintVisitor =
  stream :: string
  indent :: int

text \<open>
  What the printer takes from outside \<^verbatim>\<open>core/ast.cpp\<close>: whether \<^verbatim>\<open>NDEBUG\<close> is defined, the
  integer value of each enumerator of \<^verbatim>\<open>AST_TYPE\<close> (written by the default branch of
  \<^verbatim>\<open>printOp\<close>), and the text that \<^verbatim>\<open>llvm::raw_ostream\<close> writes for a \<^verbatim>\<open>double\<close>.
\<close>

record build =
  NDEBUG :: bool
  enum_value :: "AST_TYPE \<Rightarrow> int"
  double_text :: "64 word \<Rightarrow> string"

text \<open>\<^verbatim>\<open>stream << s\<close>\<close>

definition put :: "string \<Rightarrow> ASTPrintVisitor action" where
  "put s p = Inr (p\<lparr>stream := stream p @ s\<rparr>)"

text \<open>\<^verbatim>\<open>for (int i = 0; i < indent; i++) stream << ' ';\<close>\<close>

definition printIndent :: "ASTPrintVisitor action" where
  "printIndent p = put (replicate (nat (indent p)) CHR '' '') p"

text \<open>\<^verbatim>\<open>indent += k\<close>\<close>

definition indent_add :: "int \<Rightarrow> ASTPrintVisitor action" where
  "indent_add k p = Inr (p\<lparr>indent := indent p + k\<rparr>)"

text \<open>The process ends.\<close>

definition fail :: "fatal \<Rightarrow> 's action" where
  "fail e s = Inl e"

text \<open>\<^verbatim>\<open>ASSERT(0, ...)\<close>, compiled unless \<^verbatim>\<open>NDEBUG\<close> is defined.\<close>

definition ASSERT_false :: "build \<Rightarrow> 's action" where
  "ASSERT_false env = (if NDEBUG env then Inr else fail Assertion_failed)"

text \<open>\<^verbatim>\<open>if (c) ...\<close> without an else branch, and \<^verbatim>\<open>if (p) ...\<close> for a pointer \<^verbatim>\<open>p\<close>.\<close>

definition if_true :: "bool \<Rightarrow> 's action \<Rightarrow> 's action" where
  "if_true c act = (if c then act else Inr)"

primrec if_some :: "'a option \<Rightarrow> ('a \<Rightarrow> 's action) \<Rightarrow> 's action" where
  "if_some None body = Inr"
| "if_some (Some x) body = body x"

text \<open>
  \<^verbatim>\<open>for (auto x : xs) body(x)\<close>, and \<^verbatim>\<open>for (int i = 0; i < xs.size(); i++) body(i, xs[i])\<close>.
\<close>

definition for_each :: "('a \<Rightarrow> 's action) \<Rightarrow> 'a list \<Rightarrow> 's action" where
  "for_each body xs = in_order (map body xs)"

primrec for_from :: "nat \<Rightarrow> (nat \<Rightarrow> 'a \<Rightarrow> 's action) \<Rightarrow> 'a list \<Rightarrow> 's action" where
  "for_from i body [] = Inr"
| "for_from i body (x # xs) = and_then (body i x) (for_from (Suc i) body xs)"

definition for_i :: "(nat \<Rightarrow> 'a \<Rightarrow> 's action) \<Rightarrow> 'a list \<Rightarrow> 's action" where
  "for_i body xs = for_from 0 body xs"

text \<open>The decimal text that \<^verbatim>\<open>stream << n\<close> writes for an integer.\<close>

fun digits :: "nat \<Rightarrow> string" where
  "digits n =
     (if n < 10 then [char_of (48 + n)] else digits (n div 10) @ [char_of (48 + n mod 10)])"

definition show_int :: "int \<Rightarrow> string" where
  "show_int i = (if i < 0 then ''-'' @ digits (nat (- i)) else digits (nat i))"

text \<open>\<^verbatim>\<open>void ASTPrintVisitor::printOp(AST_TYPE::AST_TYPE op_type)\<close>\<close>

definition printOp :: "build \<Rightarrow> AST_TYPE \<Rightarrow> ASTPrintVisitor action" where
  "printOp env op_type =
    (case op_type of
       AST_TYPE_Add \<Rightarrow> put ''+''
     | AST_TYPE_BitAnd \<Rightarrow> put ''&''
     | AST_TYPE_BitOr \<Rightarrow> put ''|''
     | AST_TYPE_BitXor \<Rightarrow> put ''^''
     | AST_TYPE_Div \<Rightarrow> put ''/''
     | AST_TYPE_LShift \<Rightarrow> put ''<<''
     | AST_TYPE_RShift \<Rightarrow> put ''>>''
     | AST_TYPE_Pow \<Rightarrow> put ''**''
     | AST_TYPE_Mod \<Rightarrow> put ''%''
     | AST_TYPE_Mult \<Rightarrow> put ''*''
     | AST_TYPE_Sub \<Rightarrow> put ''-''
     | _ \<Rightarrow> put (''<'' @ show_int (enum_value env op_type) @ ''>''))"

text \<open>
  A handler of the printer: its statements, then \<^verbatim>\<open>return b\<close>. And the two shapes of
  \<^verbatim>\<open>AST_X::accept\<close> with the printer as the visitor.
\<close>

definition returns :: "bool \<Rightarrow> 's action \<Rightarrow> 's \<Rightarrow> fatal + bool \<times> 's" where
  "returns b act s = (case act s of Inl e \<Rightarrow> Inl e | Inr s' \<Rightarrow> Inr (b, s'))"

definition if_not_skipped :: "('s \<Rightarrow> fatal + bool \<times> 's) \<Rightarrow> 's action \<Rightarrow> 's action" where
  "if_not_skipped handler rest s = unless_skip (handler s) rest"

definition skip_ignored :: "('s \<Rightarrow> fatal + bool \<times> 's) \<Rightarrow> 's action" where
  "skip_ignored handler s = ignore_skip (handler s)"

text \<open>
  \<^verbatim>\<open>node->accept(this)\<close> for \<^verbatim>\<open>this\<close> an \<^verbatim>\<open>ASTPrintVisitor\<close>. The handlers of the printer
  call \<^verbatim>\<open>accept\<close> on the children themselves, so each equation is \<^verbatim>\<open>AST_X::accept\<close> with the
  body of \<^verbatim>\<open>ASTPrintVisitor::visit_x\<close> written in the place of the call of the handler:
  first the handler with the value it returns, then the children that \<^verbatim>\<open>AST_X::accept\<close>
  visits when the handler has returned false.

  In \<^verbatim>\<open>visit_call\<close> the flag \<^verbatim>\<open>prevarg\<close> is true once an argument has been written; in
  \<^verbatim>\<open>visit_set\<close> the flag \<^verbatim>\<open>first\<close> is true at the first element only.
\<close>

primrec accept_print :: "build \<Rightarrow> AST \<Rightarrow> ASTPrintVisitor action" where
  "accept_print env (AST_alias name asname) =
     if_not_skipped
       (returns True
         (in_order
          [put name,
           if_true (asname \<noteq> []) (put ('' as '' @ asname))]))
       (in_order [])"
| "accept_print env (AST_arguments args vararg kwarg defaults) =
     if_not_skipped
       (returns True
         (in_order
          [for_i (\<lambda>i a. in_order
            [if_true (0 < i) (put '', ''),
             a,
             if_true (int (length args) - int (length defaults) \<le> int i)
               (in_order [put ''='',
                  (map (accept_print env) defaults)
                      ! nat (int i - (int (length args) - int (length defaults)))])])
          (map (accept_print env) args)]))
       (in_order [visitVector (map (accept_print env) defaults),
          visitVector (map (accept_print env) args),
          if_present (map_option (accept_print env) kwarg),
          if_present (map_option (accept_print env) vararg)])"
| "accept_print env (AST_Assert test msg) =
     if_not_skipped
       (returns True
         (in_order
          [put ''assert '',
           accept_print env test,
           if_some (map_option (accept_print env) msg) (\<lambda>m. in_order [put '', '', m])]))
       (in_order [accept_print env test,
          if_present (map_option (accept_print env) msg)])"
| "accept_print env (AST_Assign targets value) =
     if_not_skipped
       (returns True
         (in_order
          [for_each (\<lambda>t. in_order [t, put '' = '']) (map (accept_print env) targets),
           accept_print env value]))
       (in_order [accept_print env value,
          visitVector (map (accept_print env) targets)])"
| "accept_print env (AST_AugAssign target op_type value) =
     if_not_skipped
       (returns True
         (in_order
          [accept_print env target,
           printOp env op_type,
           put ''='',
           accept_print env value]))
       (in_order [accept_print env value,
          accept_print env target])"
| "accept_print env (AST_AugBinOp left op_type right) =
     if_not_skipped
       (returns True
         (in_order
          [accept_print env left,
           put ''='',
           printOp env op_type,
           accept_print env right]))
       (in_order [accept_print env left,
          accept_print env right])"
| "accept_print env (AST_Attribute value attr) =
     if_not_skipped
       (returns True
         (in_order
          [accept_print env value,
           put ''.'',
           put attr]))
       (in_order [accept_print env value])"
| "accept_print env (AST_BinOp left op_type right) =
     if_not_skipped
       (returns True
         (in_order
          [accept_print env left,
           printOp env op_type,
           accept_print env right]))
       (in_order [accept_print env left,
          accept_print env right])"
| "accept_print env (AST_BoolOp op_type values) =
     if_not_skipped
       (returns True
         (in_order
          [for_i (\<lambda>i a. in_order
            [a,
             if_true (i \<noteq> length values - 1)
               (case op_type of
                  AST_TYPE_And \<Rightarrow> put '' and ''
                | AST_TYPE_Or \<Rightarrow> put '' or ''
                | _ \<Rightarrow> ASSERT_false env)])
          (map (accept_print env) values)]))
       (in_order [visitVector (map (accept_print env) values)])"
| "accept_print env AST_Break =
     if_not_skipped
       (returns True
         (put ''break''))
       (in_order [])"
| "accept_print env (AST_Call func args keywords starargs kwargs) =
     if_not_skipped
       (returns True
         (in_order
          [accept_print env func,
           put ''('',
           for_i (\<lambda>i a. in_order [if_true (0 < i) (put '', ''), a])
               (map (accept_print env) args),
           for_i
               (\<lambda>i a. in_order [if_true (args \<noteq> [] \<or> 0 < i) (put '', ''), a])
           (map (accept_print env) keywords),
           if_some (map_option (accept_print env) starargs)
           (\<lambda>a. in_order [if_true (args \<noteq> [] \<or> keywords \<noteq> []) (put '', ''), a]),
           if_some (map_option (accept_print env) kwargs)
           (\<lambda>a. in_order
              [if_true (args \<noteq> [] \<or> keywords \<noteq> [] \<or> starargs \<noteq> None) (put '', ''), a]),
           put '')'']))
       (in_order [accept_print env func,
          visitVector (map (accept_print env) args),
          visitVector (map (accept_print env) keywords),
          if_present (map_option (accept_print env) starargs),
          if_present (map_option (accept_print env) kwargs)])"
| "accept_print env (AST_Compare left ops comparators) =
     if_not_skipped
       (returns True
         (in_order
          [accept_print env left,
           for_i (\<lambda>i op. case getOpSymbol op of
              Inl e \<Rightarrow> fail e
            | Inr symbol \<Rightarrow> in_order
                [put ('' '' @ symbol @ '' ''),
                 if i < length comparators then (map (accept_print env) comparators) ! i
                 else fail Index_out_of_range])
          ops]))
       (in_order [accept_print env left,
          visitVector (map (accept_print env) comparators)])"
| "accept_print env (AST_comprehension target iter ifs) =
     if_not_skipped
       (returns True
         (in_order
          [put ''for '',
           accept_print env target,
           put '' in '',
           accept_print env iter,
           for_each (\<lambda>a. in_order [put '' if '', a]) (map (accept_print env) ifs)]))
       (in_order [accept_print env target,
          accept_print env iter,
          visitVector (map (accept_print env) ifs)])"
| "accept_print env (AST_ClassDef name bases body decorator_list) =
     if_not_skipped
       (returns True
         (in_order
          [for_each (\<lambda>d. in_order [put ''@'', d, put ''\<newline>'', printIndent])
              (map (accept_print env) decorator_list),
           put (''class '' @ name @ ''(''),
           for_i (\<lambda>i a. in_order [if_true (i \<noteq> 0) (put '', ''), a])
               (map (accept_print env) bases),
           put '')'',
           indent_add 4,
           for_each (\<lambda>a. in_order [put ''\<newline>'', printIndent, a])
               (map (accept_print env) body),
           indent_add (- 4)]))
       (in_order [visitVector (map (accept_print env) bases),
          visitVector (map (accept_print env) decorator_list),
          visitVector (map (accept_print env) body)])"
| "accept_print env AST_Continue =
     if_not_skipped
       (returns True
         (put ''continue''))
       (in_order [])"
| "accept_print env (AST_Delete targets) =
     if_not_skipped
       (returns True
         (in_order
          [put ''del '',
           for_i (\<lambda>i a. in_order [if_true (0 < i) (put '', ''), a])
               (map (accept_print env) targets)]))
       (in_order [visitVector (map (accept_print env) targets)])"
| "accept_print env (AST_Dict keys values) =
     if_not_skipped
       (returns True
         (in_order
          [put ''{'',
           for_i (\<lambda>i k. in_order
            [if_true (0 < i) (put '', ''),
             k,
             put '':'',
             if i < length values then
                 (map (accept_print env) values) ! i else fail Index_out_of_range])
          (map (accept_print env) keys),
           put ''}'']))
       (in_order [visit_pairs (map (accept_print env) keys) (map (accept_print env) values)])"
| "accept_print env (AST_DictComp key value generators) =
     if_not_skipped
       (returns True
         (in_order
          [put ''{'',
           accept_print env key,
           put '':'',
           accept_print env value,
           for_each (\<lambda>c. in_order [put '' '', c]) (map (accept_print env) generators),
           put ''}'']))
       (in_order [visitVector (map (accept_print env) generators),
          accept_print env value,
          accept_print env key])"
| "accept_print env AST_Ellipsis =
     if_not_skipped
       (returns True
         (put ''...''))
       (in_order [])"
| "accept_print env (AST_ExceptHandler type name body) =
     if_not_skipped
       (returns True
         (in_order
          [put ''except'',
           if_some (map_option (accept_print env) type) (\<lambda>t. in_order [put '' '', t]),
           if_some (map_option (accept_print env) name)
               (\<lambda>n. in_order [put '' as '', n]),
           put '':\<newline>'',
           indent_add 4,
           for_each (\<lambda>a. in_order [printIndent, a, put ''\<newline>''])
               (map (accept_print env) body),
           indent_add (- 4)]))
       (in_order [if_present (map_option (accept_print env) type),
          if_present (map_option (accept_print env) name),
          visitVector (map (accept_print env) body)])"
| "accept_print env (AST_Exec body globals locals) =
     if_not_skipped
       (returns True
         (in_order
          [put ''exec '',
           (case
               (map_option (accept_print env) body) of None \<Rightarrow> fail Null_dereference | Some b \<Rightarrow> b),
           if_some (map_option (accept_print env) globals)
           (\<lambda>g. in_order
              [put '' in '', g, if_some (map_option (accept_print env) locals)
                  (\<lambda>l. in_order [put '', '', l])]),
           put ''\<newline>'']))
       (in_order [if_present (map_option (accept_print env) body),
          if_present (map_option (accept_print env) globals),
          if_present (map_option (accept_print env) locals)])"
| "accept_print env (AST_Expr value) =
     if_not_skipped
       (returns False
         (in_order []))
       (in_order [accept_print env value])"
| "accept_print env (AST_ExtSlice dims) =
     if_not_skipped
       (returns True
         (in_order
          [for_i (\<lambda>i a. in_order [if_true (0 < i) (put '', ''), a])
              (map (accept_print env) dims)]))
       (in_order [visitVector (map (accept_print env) dims)])"
| "accept_print env (AST_For target iter body orelse) =
     if_not_skipped
       (returns True
         (put ''<for loop>\<newline>''))
       (in_order [accept_print env iter,
          accept_print env target,
          visitVector (map (accept_print env) body),
          visitVector (map (accept_print env) orelse)])"
| "accept_print env (AST_FunctionDef name args body decorator_list) =
     if_not_skipped
       (returns True
         (in_order
          [for_each (\<lambda>d. in_order [put ''@'', d, put ''\<newline>'', printIndent])
              (map (accept_print env) decorator_list),
           put ''def '',
           (case name of Some s \<Rightarrow> put s | None \<Rightarrow> put ''<lambda>''),
           put ''('',
           accept_print env args,
           put '')'',
           indent_add 4,
           for_each (\<lambda>a. in_order [put ''\<newline>'', printIndent, a])
               (map (accept_print env) body),
           indent_add (- 4)]))
       (in_order [visitVector (map (accept_print env) decorator_list),
          accept_print env args,
          visitVector (map (accept_print env) body)])"
| "accept_print env (AST_GeneratorExp elt generators) =
     if_not_skipped
       (returns True
         (in_order
          [put ''['',
           accept_print env elt,
           for_each (\<lambda>c. in_order [put '' '', c]) (map (accept_print env) generators),
           put '']'']))
       (in_order [visitVector (map (accept_print env) generators),
          accept_print env elt])"
| "accept_print env (AST_Global names) =
     if_not_skipped
       (returns True
         (in_order
          [put ''global '',
           for_i (\<lambda>i n. in_order [if_true (0 < i) (put '', ''), put n]) names]))
       (in_order [])"
| "accept_print env (AST_If test body orelse) =
     if_not_skipped
       (returns True
         (in_order
          [put ''if '',
           accept_print env test,
           put '':\<newline>'',
           indent_add 4,
           for_each (\<lambda>a. in_order [printIndent, a, put ''\<newline>''])
               (map (accept_print env) body),
           indent_add (- 4),
           if_true (orelse \<noteq> [])
           (let elif = (length orelse = 1 \<and> AST_type (orelse ! 0) = AST_TYPE_If) in
            in_order
              [printIndent,
               if elif then put ''el'' else in_order [put ''else:\<newline>'', indent_add 4],
               for_i
                   (\<lambda>i a. in_order [if_true (i \<noteq> 0) (put ''\<newline>''), printIndent, a])
                 (map (accept_print env) orelse),
               if_true (\<not> elif) (indent_add (- 4))])]))
       (in_order [accept_print env test,
          visitVector (map (accept_print env) body),
          visitVector (map (accept_print env) orelse)])"
| "accept_print env (AST_IfExp test body orelse) =
     if_not_skipped
       (returns True
         (in_order
          [accept_print env body,
           put '' if '',
           accept_print env test,
           put '' else '',
           accept_print env orelse]))
       (in_order [accept_print env test,
          accept_print env body,
          accept_print env orelse])"
| "accept_print env (AST_Import names) =
     if_not_skipped
       (returns True
         (in_order
          [put ''import '',
           for_i (\<lambda>i a. in_order [if_true (0 < i) (put '', ''), a])
               (map (accept_print env) names)]))
       (in_order [visitVector (map (accept_print env) names)])"
| "accept_print env (AST_ImportFrom module names) =
     if_not_skipped
       (returns True
         (in_order
          [put (''from '' @ module @ '' import ''),
           for_i (\<lambda>i a. in_order [if_true (0 < i) (put '', ''), a])
               (map (accept_print env) names)]))
       (in_order [visitVector (map (accept_print env) names)])"
| "accept_print env (AST_Index value) =
     if_not_skipped
       (returns False
         (in_order []))
       (in_order [accept_print env value])"
| "accept_print env (AST_Invoke stmt normal_dest exc_dest) =
     if_not_skipped
       (returns True
         (in_order
          [put (''invoke '' @ show_int normal_dest @ '' '' @ show_int exc_dest @ '': ''),
           accept_print env stmt]))
       (in_order [accept_print env stmt])"
| "accept_print env (AST_keyword arg value) =
     if_not_skipped
       (returns True
         (in_order
          [put (arg @ ''=''),
           accept_print env value]))
       (in_order [accept_print env value])"
| "accept_print env (AST_Lambda args body) =
     if_not_skipped
       (returns True
         (in_order
          [put ''lambda '',
           accept_print env args,
           put '': '',
           accept_print env body]))
       (in_order [accept_print env args,
          accept_print env body])"
| "accept_print env (AST_LangPrimitive opcode args) =
     if_not_skipped
       (returns True
         (in_order
          [put '':'',
           (case opcode of
            AST_LangPrimitive_CHECK_EXC_MATCH \<Rightarrow> put ''CHECK_EXC_MATCH''
          | AST_LangPrimitive_LANDINGPAD \<Rightarrow> put ''LANDINGPAD''
          | AST_LangPrimitive_LOCALS \<Rightarrow> put ''LOCALS''
          | AST_LangPrimitive_GET_ITER \<Rightarrow> put ''GET_ITER''
          | AST_LangPrimitive_IMPORT_FROM \<Rightarrow> put ''IMPORT_FROM''
          | AST_LangPrimitive_IMPORT_NAME \<Rightarrow> put ''IMPORT_NAME''
          | AST_LangPrimitive_IMPORT_STAR \<Rightarrow> put ''IMPORT_STAR''
          | AST_LangPrimitive_NONE \<Rightarrow> put ''NONE''
          | AST_LangPrimitive_NONZERO \<Rightarrow> put ''NONZERO''
          | AST_LangPrimitive_SET_EXC_INFO \<Rightarrow> put ''SET_EXC_INFO''
          | AST_LangPrimitive_UNCACHE_EXC_INFO \<Rightarrow> put ''UNCACHE_EXC_INFO''
          | AST_LangPrimitive_HASNEXT \<Rightarrow> put ''HASNEXT''
          | AST_LangPrimitive_PRINT_EXPR \<Rightarrow> put ''PRINT_EXPR''
          | AST_LangPrimitive_other \<Rightarrow> fail Release_assert_failed),
           put ''('',
           for_i (\<lambda>i a. in_order [if_true (0 < i) (put '', ''), a])
               (map (accept_print env) args),
           put '')'']))
       (in_order [visitVector (map (accept_print env) args)])"
| "accept_print env (AST_List elts) =
     if_not_skipped
       (returns True
         (in_order
          [put ''['',
           for_i (\<lambda>i a. in_order [if_true (0 < i) (put '', ''), a])
               (map (accept_print env) elts),
           put '']'']))
       (in_order [visitVector (map (accept_print env) elts)])"
| "accept_print env (AST_ListComp elt generators) =
     if_not_skipped
       (returns True
         (in_order
          [put ''['',
           accept_print env elt,
           for_each (\<lambda>c. in_order [put '' '', c]) (map (accept_print env) generators),
           put '']'']))
       (in_order [visitVector (map (accept_print env) generators),
          accept_print env elt])"
| "accept_print env (AST_Module body) =
     if_not_skipped
       (returns True
         (in_order
          [for_each (\<lambda>a. in_order [a, put ''\<newline>''])
              (map (accept_print env) body)]))
       (in_order [visitVector (map (accept_print env) body)])"
| "accept_print env (AST_Expression body) =
     if_not_skipped
       (returns True
         (in_order
          [accept_print env body,
           put ''\<newline>'']))
       (in_order [accept_print env body])"
| "accept_print env (AST_Suite body) =
     if_not_skipped
       (returns True
         (in_order
          [for_each (\<lambda>a. in_order [printIndent, a, put ''\<newline>''])
              (map (accept_print env) body)]))
       (in_order [visitVector (map (accept_print env) body)])"
| "accept_print env (AST_Name id') =
     skip_ignored
       (returns False
         (put id'))"
| "accept_print env (AST_Num num_type n_int n_long n_float) =
     skip_ignored
       (returns False
         (in_order
          [(case num_type of
            AST_Num_INT \<Rightarrow> put (show_int (sint n_int))
          | AST_Num_LONG \<Rightarrow> put (n_long @ ''L'')
          | AST_Num_FLOAT \<Rightarrow> put (double_text env n_float)
          | AST_Num_COMPLEX \<Rightarrow> put (double_text env n_float @ ''j'')
          | AST_Num_other \<Rightarrow> fail Release_assert_failed)]))"
| "accept_print env AST_Pass =
     skip_ignored
       (returns True
         (put ''pass''))"
| "accept_print env (AST_Print dest values nl) =
     if_not_skipped
       (returns True
         (in_order
          [put ''print '',
           if_some (map_option (accept_print env) dest)
               (\<lambda>d. in_order [put ''>>'', d, put '', '']),
           for_i (\<lambda>i a. in_order [if_true (0 < i) (put '', ''), a])
               (map (accept_print env) values),
           if_true (\<not> nl) (put '','')]))
       (in_order [if_present (map_option (accept_print env) dest),
          visitVector (map (accept_print env) values)])"
| "accept_print env (AST_Raise arg0 arg1 arg2) =
     if_not_skipped
       (returns True
         (in_order
          [put ''raise'',
           if_some (map_option (accept_print env) arg0) (\<lambda>a. in_order [put '' '', a]),
           if_some (map_option (accept_print env) arg1) (\<lambda>a. in_order [put '', '', a]),
           if_some (map_option (accept_print env) arg2)
               (\<lambda>a. in_order [put '', '', a])]))
       (in_order [if_present (map_option (accept_print env) arg0),
          if_present (map_option (accept_print env) arg1),
          if_present (map_option (accept_print env) arg2)])"
| "accept_print env (AST_Repr value) =
     if_not_skipped
       (returns True
         (in_order
          [put [CHR 0x60],
           accept_print env value,
           put [CHR 0x60]]))
       (in_order [accept_print env value])"
| "accept_print env (AST_Return value) =
     if_not_skipped
       (returns False
         (put ''return ''))
       (in_order [if_present (map_option (accept_print env) value)])"
| "accept_print env (AST_Set elts) =
     if_not_skipped
       (returns True
         (in_order
          [if_true (elts = []) (put ''SET''),
           put ''{'',
           for_i (\<lambda>i a. in_order [if_true (0 < i) (put '', ''), a])
               (map (accept_print env) elts),
           put ''}'']))
       (in_order [visitVector (map (accept_print env) elts)])"
| "accept_print env (AST_SetComp elt generators) =
     if_not_skipped
       (returns True
         (in_order
          [put ''{'',
           accept_print env elt,
           for_each (\<lambda>c. in_order [put '' '', c]) (map (accept_print env) generators),
           put ''}'']))
       (in_order [visitVector (map (accept_print env) generators),
          accept_print env elt])"
| "accept_print env (AST_Slice lower upper step) =
     if_not_skipped
       (returns True
         (in_order
          [put ''<slice>('',
           if_some (map_option (accept_print env) lower) (\<lambda>a. a),
           if_true (upper \<noteq> None \<or> step \<noteq> None) (put '':''),
           if_some (map_option (accept_print env) upper) (\<lambda>a. a),
           if_some (map_option (accept_print env) step) (\<lambda>a. in_order [put '':'', a]),
           put '')'']))
       (in_order [if_present (map_option (accept_print env) lower),
          if_present (map_option (accept_print env) upper),
          if_present (map_option (accept_print env) step)])"
| "accept_print env (AST_Str str_type str_data) =
     if_not_skipped
       (returns False
         (in_order
          [(case str_type of
            AST_Str_STR \<Rightarrow> put ([CHR 0x22] @ str_data @ [CHR 0x22])
          | AST_Str_UNICODE \<Rightarrow> put ''<unicode value>''
          | AST_Str_other \<Rightarrow> fail Release_assert_failed)]))
       (in_order [])"
| "accept_print env (AST_Subscript value slice') =
     if_not_skipped
       (returns True
         (in_order
          [accept_print env value,
           put ''['',
           accept_print env slice',
           put '']'']))
       (in_order [accept_print env value,
          accept_print env slice'])"
| "accept_print env (AST_TryExcept body orelse handlers) =
     if_not_skipped
       (returns True
         (in_order
          [put ''try:\<newline>'',
           indent_add 4,
           for_each (\<lambda>a. in_order [printIndent, a, put ''\<newline>''])
               (map (accept_print env) body),
           indent_add (- 4),
           for_each (\<lambda>h. in_order [printIndent, h]) (map (accept_print env) handlers),
           if_true (orelse \<noteq> [])
           (in_order
              [printIndent, put ''else:\<newline>'', indent_add 4,
               for_each (\<lambda>a. in_order [printIndent, a, put ''\<newline>''])
                   (map (accept_print env) orelse),
               indent_add (- 4)])]))
       (in_order [visitVector (map (accept_print env) body),
          visitVector (map (accept_print env) orelse),
          visitVector (map (accept_print env) handlers)])"
| "accept_print env (AST_TryFinally body finalbody) =
     if_not_skipped
       (returns True
         (in_order
          [if length body = 1 \<and> AST_type (body ! 0) = AST_TYPE_TryExcept
         then in_order
           [(map (accept_print env) body) ! 0, printIndent, put ''finally:\<newline>'', indent_add 4,
            for_each (\<lambda>a. in_order [printIndent, a, put ''\<newline>''])
                (map (accept_print env) finalbody),
            indent_add (- 4)]
         else in_order
           [put ''try:\<newline>'', indent_add 4,
            for_each (\<lambda>a. in_order [printIndent, a, put ''\<newline>''])
                (map (accept_print env) body),
            indent_add (- 4), printIndent, put ''finally:\<newline>'', indent_add 4,
            for_each (\<lambda>a. in_order [printIndent, a, put ''\<newline>''])
                (map (accept_print env) finalbody),
            indent_add (- 4)]]))
       (in_order [visitVector (map (accept_print env) body),
          visitVector (map (accept_print env) finalbody)])"
| "accept_print env (AST_Tuple elts) =
     if_not_skipped
       (returns True
         (in_order
          [put ''('',
           for_i (\<lambda>i a. in_order [if_true (i \<noteq> 0) (put '', ''), a])
               (map (accept_print env) elts),
           if_true (length elts = 1) (put '',''),
           put '')'']))
       (in_order [visitVector (map (accept_print env) elts)])"
| "accept_print env (AST_UnaryOp op_type operand) =
     if_not_skipped
       (returns True
         (in_order
          [(case op_type of
            AST_TYPE_Invert \<Rightarrow> put ''~''
          | AST_TYPE_Not \<Rightarrow> put ''not ''
          | AST_TYPE_UAdd \<Rightarrow> put ''+''
          | AST_TYPE_USub \<Rightarrow> put ''-''
          | _ \<Rightarrow> (case getOpName (NDEBUG env) op_type of
                   Inl e \<Rightarrow> fail e
                 | Inr s \<Rightarrow> fail Release_assert_failed)),
           put ''('',
           accept_print env operand,
           put '')'']))
       (in_order [accept_print env operand])"
| "accept_print env (AST_While test body orelse) =
     if_not_skipped
       (returns True
         (in_order
          [put ''while '',
           accept_print env test,
           put ''\<newline>'',
           indent_add 4,
           for_each (\<lambda>a. in_order [printIndent, a, put ''\<newline>''])
               (map (accept_print env) body),
           indent_add (- 4),
           if_true (orelse \<noteq> [])
           (in_order
              [printIndent, put ''else\<newline>'', indent_add 4,
               for_each (\<lambda>a. in_order [printIndent, a, put ''\<newline>''])
                   (map (accept_print env) orelse),
               indent_add (- 4)])]))
       (in_order [accept_print env test,
          visitVector (map (accept_print env) body),
          visitVector (map (accept_print env) orelse)])"
| "accept_print env (AST_With context_expr optional_vars body) =
     if_not_skipped
       (returns True
         (in_order
          [put ''with '',
           accept_print env context_expr,
           if_some (map_option (accept_print env) optional_vars)
               (\<lambda>a. in_order [put '' as '', a, put '':\<newline>'']),
           indent_add 4,
           for_i (\<lambda>i a. in_order [if_true (0 < i) (put ''\<newline>''), printIndent, a])
               (map (accept_print env) body),
           indent_add (- 4)]))
       (in_order [accept_print env context_expr,
          if_present (map_option (accept_print env) optional_vars),
          visitVector (map (accept_print env) body)])"
| "accept_print env (AST_Yield value) =
     if_not_skipped
       (returns True
         (in_order
          [put ''yield '',
           if_some (map_option (accept_print env) value) (\<lambda>a. a)]))
       (in_order [if_present (map_option (accept_print env) value)])"
| "accept_print env (AST_ClsAttribute value attr) =
     if_not_skipped
       (returns True
         (in_order
          [accept_print env value,
           put ('':'' @ attr)]))
       (in_order [accept_print env value])"

text \<open>
  \<^verbatim>\<open>void print_ast(AST* ast)\<close>: \<^verbatim>\<open>ASTPrintVisitor v; ast->accept(&v); v.flush();\<close>
  The result is the text written. The constructor's default arguments are in
  \<^verbatim>\<open>core/ast.h\<close>; \<open>indent0\<close> is the initial indentation.
\<close>

definition print_ast_from :: "build \<Rightarrow> int \<Rightarrow> AST \<Rightarrow> fatal + string" where
  "print_ast_from env indent0 ast =
     (case accept_print env ast \<lparr>stream = [], indent = indent0\<rparr> of
        Inl e \<Rightarrow> Inl e
      | Inr v \<Rightarrow> Inr (stream v))"

text \<open>
  Modelled from the spec: the indentation level with which \<^verbatim>\<open>print_ast\<close> starts (the default
  argument of the constructor of \<^verbatim>\<open>ASTPrintVisitor\<close>, declared in \<^verbatim>\<open>core/ast.h\<close>); the texts
  of section 8 start at the left margin, so it is 0.
\<close>

definition print_ast :: "build \<Rightarrow> AST \<Rightarrow> fatal + string" where
  "print_ast env ast = print_ast_from env 0 ast"

text \<open>One build: assertions compiled, the other two parameters trivial.\<close>

definition some_build :: build where
  "some_build = \<lparr>NDEBUG = False, enum_value = (\<lambda>t. 0), double_text = (\<lambda>d. [])\<rparr>"

section \<open>Properties of the operator resolver\<close>

lemma operator_tags_set:
  "set operator_tags =
    {AST_TYPE_Add, AST_TYPE_Sub, AST_TYPE_Mult, AST_TYPE_Div, AST_TYPE_TrueDiv,
     AST_TYPE_FloorDiv, AST_TYPE_Mod, AST_TYPE_Pow, AST_TYPE_DivMod, AST_TYPE_BitAnd,
     AST_TYPE_BitOr, AST_TYPE_BitXor, AST_TYPE_LShift, AST_TYPE_RShift, AST_TYPE_Eq,
     AST_TYPE_NotEq, AST_TYPE_Lt, AST_TYPE_LtE, AST_TYPE_Gt, AST_TYPE_GtE, AST_TYPE_Is,
     AST_TYPE_IsNot, AST_TYPE_In, AST_TYPE_NotIn, AST_TYPE_And, AST_TYPE_Or,
     AST_TYPE_Invert, AST_TYPE_Not, AST_TYPE_UAdd, AST_TYPE_USub}"
  by (simp add: operator_tags_def arithmetic_tags_def bitwise_tags_def shift_tags_def
      comparison_tags_def boolean_tags_def unary_tags_def)

lemma getOpName_shape:
  "getOpName ndebug op = Inr name \<Longrightarrow>
     take 2 name = ''__'' \<and> CHR 0x00 \<notin> set name \<and> name \<noteq> []"
  by (cases op) (auto simp add: getOpName_def split: if_splits)

text \<open>
  C2, as the code has it. On the operator tags, \<^verbatim>\<open>getOpSymbol\<close> returns a non-empty symbol
  for every tag but the two boolean tags \<^verbatim>\<open>And\<close> and \<^verbatim>\<open>Or\<close>, for which it reaches its aborting
  default branch; \<^verbatim>\<open>getOpName\<close> returns a non-empty name for every tag but \<^verbatim>\<open>And\<close>, \<^verbatim>\<open>Or\<close>,
  \<^verbatim>\<open>Is\<close>, \<^verbatim>\<open>IsNot\<close> and \<^verbatim>\<open>NotIn\<close>, for which it aborts (with or without \<^verbatim>\<open>NDEBUG\<close>).
\<close>

theorem getOpSymbol_getOpName_on_operator_tags:
  "op \<in> set operator_tags \<Longrightarrow>
    (case getOpSymbol op of
       Inl e \<Rightarrow> e = Unknown_op_type op \<and> op \<in> {AST_TYPE_And, AST_TYPE_Or}
     | Inr s \<Rightarrow> s \<noteq> [] \<and> op \<notin> {AST_TYPE_And, AST_TYPE_Or})
  \<and> (case getOpName ndebug op of
       Inl e \<Rightarrow> op \<in> {AST_TYPE_And, AST_TYPE_Or, AST_TYPE_Is, AST_TYPE_IsNot, AST_TYPE_NotIn}
         \<and> e = (if \<not> ndebug \<and> op \<in> {AST_TYPE_Is, AST_TYPE_IsNot} then Assertion_failed
                else Unknown_op_type op)
     | Inr s \<Rightarrow> s \<noteq> []
         \<and> op \<notin> {AST_TYPE_And, AST_TYPE_Or, AST_TYPE_Is, AST_TYPE_IsNot, AST_TYPE_NotIn})"
  by (auto simp add: operator_tags_set getOpSymbol_def getOpName_def)

theorem getOpSymbol_getOpName_on_operator_tags_witness:
  "AST_TYPE_Add \<in> set operator_tags
   \<and> getOpSymbol AST_TYPE_Add = Inr ''+''
   \<and> getOpName True AST_TYPE_Add = Inr ''__add__''"
  using getOpSymbol_getOpName_on_operator_tags [of AST_TYPE_Add True]
  by (simp add: operator_tags_set getOpSymbol_def getOpName_def)

text \<open>
  C2, as the specification states it, fails: the boolean tag \<^verbatim>\<open>And\<close> is an operator tag for
  which \<^verbatim>\<open>getOpSymbol\<close> aborts, and \<^verbatim>\<open>NotIn\<close> and \<^verbatim>\<open>Is\<close> are operator tags for which
  \<^verbatim>\<open>getOpName\<close> aborts.
\<close>

theorem getOp_total_counterexample:
  "AST_TYPE_And \<in> set operator_tags
   \<and> getOpSymbol AST_TYPE_And = Inl (Unknown_op_type AST_TYPE_And)
   \<and> AST_TYPE_NotIn \<in> set operator_tags
   \<and> getOpName True AST_TYPE_NotIn = Inl (Unknown_op_type AST_TYPE_NotIn)
   \<and> getOpName False AST_TYPE_NotIn = Inl (Unknown_op_type AST_TYPE_NotIn)
   \<and> AST_TYPE_Is \<in> set operator_tags
   \<and> getOpName True AST_TYPE_Is = Inl (Unknown_op_type AST_TYPE_Is)
   \<and> getOpName False AST_TYPE_Is = Inl Assertion_failed"
  by (simp add: operator_tags_set getOpSymbol_def getOpName_def)

text \<open>
  C3. \<^verbatim>\<open>getReverseOpName\<close> called with \<^verbatim>\<open>Is\<close> or \<^verbatim>\<open>IsNot\<close> returns no name: the swap table
  leaves the tag as it is, and \<^verbatim>\<open>getOpName\<close> then fails its assertion, or, with \<^verbatim>\<open>NDEBUG\<close>,
  reaches its aborting default branch.
\<close>

theorem getReverseOpName_identity_aborts:
  "getReverseOpName ndebug AST_TYPE_Is =
     Inl (if ndebug then Unknown_op_type AST_TYPE_Is else Assertion_failed)
   \<and> getReverseOpName ndebug AST_TYPE_IsNot =
     Inl (if ndebug then Unknown_op_type AST_TYPE_IsNot else Assertion_failed)"
  by (simp add: getReverseOpName_def getReverseCmpOp_def getOpName_def)

text \<open>
  C4. \<^verbatim>\<open>getReverseCmpOp\<close> is the swap table Eq to Eq, NotEq to NotEq, Lt to Gt, Gt to Lt,
  LtE to GtE, GtE to LtE (each with \<^verbatim>\<open>success\<close> set), and applying it twice gives the tag
  back: for the six comparison tags, and for every other tag too, which it returns unchanged.
\<close>

theorem getReverseCmpOp_table_involution:
  "getReverseCmpOp AST_TYPE_Eq = (AST_TYPE_Eq, True)
   \<and> getReverseCmpOp AST_TYPE_NotEq = (AST_TYPE_NotEq, True)
   \<and> getReverseCmpOp AST_TYPE_Lt = (AST_TYPE_Gt, True)
   \<and> getReverseCmpOp AST_TYPE_Gt = (AST_TYPE_Lt, True)
   \<and> getReverseCmpOp AST_TYPE_LtE = (AST_TYPE_GtE, True)
   \<and> getReverseCmpOp AST_TYPE_GtE = (AST_TYPE_LtE, True)
   \<and> fst (getReverseCmpOp (fst (getReverseCmpOp op))) = op
   \<and> snd (getReverseCmpOp (fst (getReverseCmpOp op))) = snd (getReverseCmpOp op)"
  by (simp add: getReverseCmpOp_def)

text \<open>
  C5. For every tag that \<^verbatim>\<open>getOpName\<close> accepts, the special-method name starts with two
  underscores and \<^verbatim>\<open>getInplaceOpName\<close> returns that name with \<open>i\<close> inserted after them.
\<close>

theorem getInplaceOpName_inserts_i:
  "getOpName ndebug op = Inr name \<Longrightarrow>
     take 2 name = ''__''
     \<and> getInplaceOpName ndebug op = Inr (take 2 name @ ''i'' @ drop 2 name)"
  by (cases op) (auto simp add: getInplaceOpName_def getOpName_def c_str_def split: if_splits)

theorem getInplaceOpName_inserts_i_witness:
  "getOpName False AST_TYPE_Add = Inr ''__add__''
   \<and> getInplaceOpName False AST_TYPE_Add = Inr ''__iadd__''"
proof -
  have h: "getOpName False AST_TYPE_Add = Inr ''__add__''"
    by (simp add: getOpName_def)
  from getInplaceOpName_inserts_i [OF h] h show ?thesis by simp
qed

text \<open>
  C6. For every arithmetic, bitwise and shift tag, \<^verbatim>\<open>getOpName\<close> returns a name that starts
  with two underscores and \<^verbatim>\<open>getReverseOpName\<close> returns that name with \<open>r\<close> inserted after
  them.
\<close>

theorem getReverseOpName_inserts_r:
  "op \<in> set (arithmetic_tags @ bitwise_tags @ shift_tags) \<Longrightarrow>
     \<exists>name. getOpName ndebug op = Inr name \<and> take 2 name = ''__''
       \<and> getReverseOpName ndebug op = Inr (take 2 name @ ''r'' @ drop 2 name)"
  by (auto simp add: arithmetic_tags_def bitwise_tags_def shift_tags_def
      getReverseOpName_def getReverseCmpOp_def getOpName_def c_str_def)

theorem getReverseOpName_inserts_r_witness:
  "AST_TYPE_Add \<in> set (arithmetic_tags @ bitwise_tags @ shift_tags)
   \<and> getOpName False AST_TYPE_Add = Inr ''__add__''
   \<and> getReverseOpName False AST_TYPE_Add = Inr ''__radd__''"
proof -
  have h: "AST_TYPE_Add \<in> set (arithmetic_tags @ bitwise_tags @ shift_tags)"
    by (simp add: arithmetic_tags_def)
  have n: "getOpName False AST_TYPE_Add = Inr ''__add__''"
    by (simp add: getOpName_def)
  from getReverseOpName_inserts_r [OF h, of False] n h show ?thesis by auto
qed

section \<open>Properties of the dispatch\<close>

lemma and_then_Inr [simp]: "and_then f Inr = f" "and_then Inr f = f"
  by (auto simp: and_then_def fun_eq_iff split: sum.splits)

lemma and_then_assoc [simp]: "and_then (and_then f g) h = and_then f (and_then g h)"
  by (auto simp: and_then_def fun_eq_iff split: sum.splits)

lemma in_order_append [simp]: "in_order (fs @ gs) = and_then (in_order fs) (in_order gs)"
  by (induction fs) simp_all

lemma if_present_opt_child: "if_present (map_option f x) = in_order (map f (opt_child x))"
  by (cases x) simp_all

lemma visit_pairs_in_order:
  "length ks \<le> length vs \<Longrightarrow>
     visit_pairs (map f ks) (map f vs) = in_order (map f (pairs ks vs))"
  by (induction ks vs rule: pairs.induct) simp_all

lemma ignore_skip_unless_skip: "ignore_skip r = unless_skip r Inr"
  by (auto simp: ignore_skip_def unless_skip_def split: sum.splits)

lemma accept_unfold:
  "in_range n \<Longrightarrow>
     accept n v s =
       unless_skip (v (visit_of n) n s) (in_order (map (\<lambda>c. accept c v) (children n)))"
  by (cases n)
    (simp_all add: in_range_def ignore_skip_unless_skip visitVector_def if_present_opt_child
      visit_pairs_in_order)

lemma set_pairs: "set (pairs ks vs) \<subseteq> set ks \<union> set vs"
  by (induction ks vs rule: pairs.induct) auto

lemma in_pairs: "c \<in> set (pairs ks vs) \<Longrightarrow> c \<in> set ks \<or> c \<in> set vs"
  using set_pairs [of ks vs] by auto

lemma set_opt_child [simp]: "set (opt_child x) = set_option x"
  by (cases x) simp_all

lemma map_pairs: "map f (pairs ks vs) = pairs (map f ks) (map f vs)"
  by (induction ks vs rule: pairs.induct) simp_all

lemma map_opt_child: "map f (opt_child x) = opt_child (map_option f x)"
  by (cases x) simp_all

text \<open>Induction over a tree along \<open>children\<close>.\<close>

lemma AST_children_induct:
  assumes step: "\<And>n. (\<And>c. c \<in> set (children n) \<Longrightarrow> P c) \<Longrightarrow> P n"
  shows "P n"
  by (induction n; rule step; auto dest!: in_pairs)

lemma preorder_children: "preorder n = n # concat (map preorder (children n))"
  by (cases n) (simp_all add: map_pairs map_opt_child)

lemma self_in_preorder: "n \<in> set (preorder n)"
  by (simp add: preorder_children [of n])

lemma length_concat_member: "c \<in> set cs \<Longrightarrow> length (g c) \<le> length (concat (map g cs))"
  by (induction cs) auto

lemma preorder_length_mono:
  "m \<in> set (preorder n) \<Longrightarrow> length (preorder m) \<le> length (preorder n)"
proof (induction n rule: AST_children_induct)
  case (1 n)
  show ?case
  proof (cases "m = n")
    case True
    then show ?thesis by simp
  next
    case False
    with "1.prems" obtain c where c: "c \<in> set (children n)" "m \<in> set (preorder c)"
      by (auto simp: preorder_children [of n])
    have "length (preorder m) \<le> length (preorder c)"
      using "1.IH" c by blast
    also have "\<dots> \<le> length (concat (map preorder (children n)))"
      using c(1) by (rule length_concat_member)
    also have "\<dots> \<le> length (preorder n)"
      by (simp add: preorder_children [of n])
    finally show ?thesis .
  qed
qed

text \<open>A node below a child of \<open>n\<close> is not \<open>n\<close>.\<close>

lemma descendant_not_self:
  assumes "c \<in> set (children n)" and "m \<in> set (preorder c)"
  shows "m \<noteq> n"
proof
  assume "m = n"
  have "length (preorder m) \<le> length (preorder c)"
    using assms(2) by (rule preorder_length_mono)
  also have "\<dots> \<le> length (concat (map preorder (children n)))"
    using assms(1) by (rule length_concat_member)
  also have "\<dots> < length (preorder n)"
    by (simp add: preorder_children [of n])
  finally show False
    using \<open>m = n\<close> by simp
qed






text \<open>
  C7. When the handler of an assignment does not ask to skip (it returns false),
  \<^verbatim>\<open>AST_Assign::accept\<close> runs \<^verbatim>\<open>accept\<close> on the value first and then on the targets, from the
  first to the last; with two targets: the value, then the first, then the second.
\<close>

theorem accept_Assign_value_then_targets:
  "v visit_assign (AST_Assign targets value) s = Inr (False, s') \<Longrightarrow>
     accept (AST_Assign targets value) v s =
       and_then (accept value v) (in_order (map (\<lambda>t. accept t v) targets)) s'
     \<and> (targets = [T1, T2] \<longrightarrow>
          accept (AST_Assign targets value) v s =
            and_then (accept value v) (and_then (accept T1 v) (accept T2 v)) s')"
  by (auto simp add: unless_skip_def visitVector_def)

theorem accept_Assign_value_then_targets_witness:
  "recording_visitor False visit_assign
       (AST_Assign [AST_Name ''t1'', AST_Name ''t2''] (AST_Name ''v'')) [] =
     Inr (False, [AST_Assign [AST_Name ''t1'', AST_Name ''t2''] (AST_Name ''v'')])
   \<and> accept (AST_Assign [AST_Name ''t1'', AST_Name ''t2''] (AST_Name ''v''))
        (recording_visitor False) [] =
      Inr [AST_Assign [AST_Name ''t1'', AST_Name ''t2''] (AST_Name ''v''),
           AST_Name ''v'', AST_Name ''t1'', AST_Name ''t2'']"
proof -
  have h: "recording_visitor False visit_assign
       (AST_Assign [AST_Name ''t1'', AST_Name ''t2''] (AST_Name ''v'')) [] =
     Inr (False, [AST_Assign [AST_Name ''t1'', AST_Name ''t2''] (AST_Name ''v'')])"
    by (simp add: recording_visitor_def)
  from accept_Assign_value_then_targets [of "recording_visitor False"
      "[AST_Name ''t1'', AST_Name ''t2'']" "AST_Name ''v''" "[]"
      "[AST_Assign [AST_Name ''t1'', AST_Name ''t2''] (AST_Name ''v'')]"
      "AST_Name ''t1''" "AST_Name ''t2''", OF h] h
  show ?thesis
    by (simp add: recording_visitor_def ignore_skip_def and_then_def)
qed

section \<open>Properties of flatten\<close>

lemma FlattenVisitor_declared:
  "h \<noteq> visit_expression \<Longrightarrow> h \<noteq> visit_suite \<Longrightarrow>
     FlattenVisitor base expand_scopes h node output =
       Inr (\<not> expand_scopes \<and> h \<in> {visit_classdef, visit_for, visit_functiondef,
              visit_generatorexp, visit_lambda, visit_module}, output @ [node])"
  by (cases h) simp_all

lemma in_order_appending:
  "(\<And>c out. c \<in> set cs \<Longrightarrow> f c out = Inr (out @ g c)) \<Longrightarrow>
     in_order (map f cs) out = Inr (out @ concat (map g cs))"
  by (induction cs arbitrary: out) (simp_all add: and_then_def)

lemma flattens_self:
  "flattens n \<Longrightarrow>
     in_range n \<and> visit_of n \<noteq> visit_expression \<and> visit_of n \<noteq> visit_suite"
  by (simp add: flattens_def preorder_children [of n])

lemma flattens_child: "flattens n \<Longrightarrow> c \<in> set (children n) \<Longrightarrow> flattens c"
  by (simp add: flattens_def preorder_children [of n] list_all_iff)

text \<open>With \<^verbatim>\<open>expand_scopes\<close> the visitor appends the pre-order of the tree.\<close>

lemma accept_FlattenVisitor_expand:
  "flattens n \<Longrightarrow> accept n (FlattenVisitor base True) out = Inr (out @ preorder n)"
proof (induction n arbitrary: out rule: AST_children_induct)
  case (1 n)
  note self = flattens_self [OF \<open>flattens n\<close>]
  have kids: "accept c (FlattenVisitor base True) out' = Inr (out' @ preorder c)"
    if "c \<in> set (children n)" for c out'
    using that "1.IH" flattens_child [OF \<open>flattens n\<close>] by blast
  show ?case
    using self
    by (simp add: accept_unfold FlattenVisitor_declared unless_skip_def
        in_order_appending [OF kids] preorder_children [of n])
qed

text \<open>
  C8, as the code has it. For a function definition as the only root:
  with assertions compiled, \<^verbatim>\<open>flatten\<close> with \<^verbatim>\<open>expand_scopes\<close> false ends the process at the
  assertion of the visitor's constructor; with \<^verbatim>\<open>NDEBUG\<close> it appends the function
  definition alone, which is no node of its body. With \<^verbatim>\<open>expand_scopes\<close> true, on a tree
  that \<^verbatim>\<open>FlattenVisitor\<close> handles, it appends the function definition, then the nodes of the
  decorators, of the arguments and of the body, so every statement of the body is appended.
\<close>

theorem flatten_FunctionDef_root:
  "root = AST_FunctionDef name args' body decorator_list \<Longrightarrow>
     flatten False base [root] output False = Inl Assertion_failed
   \<and> flatten True base [root] output False = Inr (output @ [root])
   \<and> (\<forall>b\<in>set body. \<forall>m\<in>set (preorder b). m \<noteq> root)
   \<and> (flattens root \<longrightarrow>
        flatten ndebug base [root] output True =
          Inr (output @ root # concat (map preorder decorator_list) @ preorder args'
                 @ concat (map preorder body))
        \<and> set body \<subseteq> set (concat (map preorder body)))"
proof (intro conjI impI ballI)
  assume r: "root = AST_FunctionDef name args' body decorator_list"
  show "flatten False base [root] output False = Inl Assertion_failed"
    by (simp add: flatten_def)
  show "flatten True base [root] output False = Inr (output @ [root])"
    by (simp add: flatten_def r unless_skip_def)
  show "m \<noteq> root" if "b \<in> set body" "m \<in> set (preorder b)" for b m
    using that by (intro descendant_not_self [of b root m]) (simp_all add: r)
  show "flatten ndebug base [root] output True =
          Inr (output @ root # concat (map preorder decorator_list) @ preorder args'
                 @ concat (map preorder body))" if "flattens root"
    using accept_FlattenVisitor_expand [OF that, of base "output"]
    by (simp add: flatten_def r)
  show "set body \<subseteq> set (concat (map preorder body))"
    using self_in_preorder by auto
qed

theorem flatten_FunctionDef_root_witness:
  "flattens (AST_FunctionDef (Some ''f'') (AST_arguments [] None None []) [AST_Pass] [])
   \<and> flatten True unimplemented
        [AST_FunctionDef (Some ''f'') (AST_arguments [] None None []) [AST_Pass] []] [] False =
      Inr [AST_FunctionDef (Some ''f'') (AST_arguments [] None None []) [AST_Pass] []]
   \<and> flatten True unimplemented
        [AST_FunctionDef (Some ''f'') (AST_arguments [] None None []) [AST_Pass] []] [] True =
      Inr [AST_FunctionDef (Some ''f'') (AST_arguments [] None None []) [AST_Pass] [],
           AST_arguments [] None None [], AST_Pass]
   \<and> AST_Pass \<noteq> AST_FunctionDef (Some ''f'') (AST_arguments [] None None []) [AST_Pass] []"
proof -
  have f: "flattens (AST_FunctionDef (Some ''f'') (AST_arguments [] None None []) [AST_Pass] [])"
    by (simp add: flattens_def in_range_def)
  from flatten_FunctionDef_root [where name = "Some ''f''"
      and args' = "AST_arguments [] None None []" and body = "[AST_Pass]"
      and decorator_list = "[]" and base = unimplemented and ndebug = True, OF refl, of "[]"] f
  show ?thesis
    by simp
qed

text \<open>
  C8, as the specification states it, fails where assertions are compiled: \<^verbatim>\<open>flatten\<close> with
  \<^verbatim>\<open>expand_scopes\<close> false produces no sequence.
\<close>

theorem flatten_no_expand_asserts_counterexample:
  "flatten False unimplemented
     [AST_FunctionDef (Some ''f'') (AST_arguments [] None None []) [AST_Pass] []] [] False =
   Inl Assertion_failed"
  by (simp add: flatten_def)

text \<open>
  C10. A handler that \<^verbatim>\<open>FlattenVisitor\<close> declares appends the node and returns the skip
  signal exactly when \<^verbatim>\<open>expand_scopes\<close> is false and the handler is one of \<^verbatim>\<open>visit_classdef\<close>,
  \<^verbatim>\<open>visit_for\<close>, \<^verbatim>\<open>visit_functiondef\<close>, \<^verbatim>\<open>visit_generatorexp\<close>, \<^verbatim>\<open>visit_lambda\<close> and
  \<^verbatim>\<open>visit_module\<close>. So without \<^verbatim>\<open>expand_scopes\<close> a for-loop is appended without its
  children, and with either value of the flag a list, set or dict comprehension is
  appended and its children are visited.
\<close>

theorem FlattenVisitor_prunes_exactly:
  "(h \<noteq> visit_expression \<and> h \<noteq> visit_suite \<longrightarrow>
      FlattenVisitor base expand_scopes h node output =
        Inr (\<not> expand_scopes \<and> h \<in> {visit_classdef, visit_for, visit_functiondef,
               visit_generatorexp, visit_lambda, visit_module}, output @ [node]))
   \<and> accept (AST_For target iter' body orelse) (FlattenVisitor base False) output =
       Inr (output @ [AST_For target iter' body orelse])
   \<and> accept (AST_ListComp elt generators) (FlattenVisitor base expand_scopes) output =
       in_order (map (\<lambda>c. accept c (FlattenVisitor base expand_scopes)) (generators @ [elt]))
         (output @ [AST_ListComp elt generators])
   \<and> accept (AST_SetComp elt generators) (FlattenVisitor base expand_scopes) output =
       in_order (map (\<lambda>c. accept c (FlattenVisitor base expand_scopes)) (generators @ [elt]))
         (output @ [AST_SetComp elt generators])
   \<and> accept (AST_DictComp key val generators) (FlattenVisitor base expand_scopes) output =
       in_order
         (map (\<lambda>c. accept c (FlattenVisitor base expand_scopes)) (generators @ [val, key]))
         (output @ [AST_DictComp key val generators])"
  by (simp add: FlattenVisitor_declared unless_skip_def visitVector_def)

theorem FlattenVisitor_prunes_exactly_witness:
  "visit_for \<noteq> visit_expression \<and> visit_for \<noteq> visit_suite
   \<and> FlattenVisitor unimplemented False visit_for
        (AST_For (AST_Name ''x'') (AST_Name ''xs'') [AST_Pass] []) [] =
      Inr (True, [AST_For (AST_Name ''x'') (AST_Name ''xs'') [AST_Pass] []])
   \<and> FlattenVisitor unimplemented False visit_listcomp
        (AST_ListComp (AST_Name ''x'') []) [] =
      Inr (False, [AST_ListComp (AST_Name ''x'') []])
   \<and> accept (AST_For (AST_Name ''x'') (AST_Name ''xs'') [AST_Pass] [])
        (FlattenVisitor unimplemented False) [] =
      Inr [AST_For (AST_Name ''x'') (AST_Name ''xs'') [AST_Pass] []]
   \<and> accept (AST_ListComp (AST_Name ''x'') []) (FlattenVisitor unimplemented False) [] =
      Inr [AST_ListComp (AST_Name ''x'') [], AST_Name ''x'']"
  using FlattenVisitor_prunes_exactly [of visit_for unimplemented False
      "AST_For (AST_Name ''x'') (AST_Name ''xs'') [AST_Pass] []" "[]"
      "AST_Name ''x''" "AST_Name ''xs''" "[AST_Pass]" "[]" "AST_Name ''x''" "[]"]
    FlattenVisitor_prunes_exactly [of visit_listcomp unimplemented False
      "AST_ListComp (AST_Name ''x'') []" "[]"]
  by (simp add: ignore_skip_def and_then_def)

section \<open>Properties of the printer\<close>

text \<open>
  C9, as the code has it. Printing the \<^verbatim>\<open>if\<close> whose else-clause is a single nested \<^verbatim>\<open>if\<close>
  writes \<^verbatim>\<open>elif\<close> at the indentation of the outer \<^verbatim>\<open>if\<close>, and the text ends with the
  newline that follows every statement of a body:
  \<^verbatim>\<open>"if a:\n    pass\nelif b:\n    pass\n"\<close>. The final newline is there for every initial
  indentation \<open>k\<close> of the printer.
\<close>

theorem print_ast_elif:
  "print_ast env
     (AST_If (AST_Name ''a'') [AST_Pass] [AST_If (AST_Name ''b'') [AST_Pass] []]) =
   Inr ''if a:\<newline>    pass\<newline>elif b:\<newline>    pass\<newline>''
   \<and> print_ast_from env k
     (AST_If (AST_Name ''a'') [AST_Pass] [AST_If (AST_Name ''b'') [AST_Pass] []]) =
   Inr (''if a:\<newline>'' @ replicate (nat (k + 4)) CHR '' '' @ ''pass\<newline>''
        @ replicate (nat k) CHR '' '' @ ''el'' @ replicate (nat k) CHR '' '' @ ''if b:\<newline>''
        @ replicate (nat (k + 4)) CHR '' '' @ ''pass\<newline>'')"
  by (simp add: print_ast_def print_ast_from_def if_not_skipped_def skip_ignored_def
      returns_def unless_skip_def ignore_skip_def and_then_def put_def printIndent_def
      indent_add_def if_true_def for_each_def for_i_def numeral_eq_Suc)

theorem print_ast_elif_witness:
  "print_ast some_build
     (AST_If (AST_Name ''a'') [AST_Pass] [AST_If (AST_Name ''b'') [AST_Pass] []]) =
   Inr ''if a:\<newline>    pass\<newline>elif b:\<newline>    pass\<newline>''"
  using print_ast_elif [of some_build 0] by simp

text \<open>
  C9, as the specification states it, fails: the text written is not the text without
  the final newline.
\<close>

theorem print_ast_elif_counterexample:
  "print_ast some_build
     (AST_If (AST_Name ''a'') [AST_Pass] [AST_If (AST_Name ''b'') [AST_Pass] []]) \<noteq>
   Inr ''if a:\<newline>    pass\<newline>elif b:\<newline>    pass''"
  by (simp add: print_ast_def print_ast_from_def if_not_skipped_def skip_ignored_def
      returns_def unless_skip_def ignore_skip_def and_then_def put_def printIndent_def
      indent_add_def if_true_def for_each_def for_i_def numeral_eq_Suc)

end
